theory Spec2Isabelle
  imports Complex_Main
begin

section \<open>JavaScript numbers\<close>

text \<open>
  The module computes with JavaScript numbers. A number is modelled as a finite real
  or one of the three special values of IEEE 754 arithmetic. The special values follow
  the rules of the language (division by zero, \<open>Infinity - Infinity\<close>, \<open>0 * Infinity\<close>,
  the logarithm of zero, NaN propagation). Arithmetic on finite values is exact real
  arithmetic: the rounding of binary64 results, overflow of finite values and the sign
  of zero are not part of the model. The rounding is added, for the market efficiency,
  in a section of its own.
\<close>

datatype jsnum = Fin real | PInf | NInf | NaN

fun jneg :: "jsnum \<Rightarrow> jsnum" where
  "jneg (Fin a) = Fin (- a)"
| "jneg PInf = NInf"
| "jneg NInf = PInf"
| "jneg NaN = NaN"

text \<open>The operator \<open>+\<close>.\<close>

fun jadd :: "jsnum \<Rightarrow> jsnum \<Rightarrow> jsnum" where
  "jadd (Fin a) (Fin b) = Fin (a + b)"
| "jadd (Fin a) PInf = PInf"
| "jadd (Fin a) NInf = NInf"
| "jadd PInf (Fin b) = PInf"
| "jadd PInf PInf = PInf"
| "jadd PInf NInf = NaN"
| "jadd NInf (Fin b) = NInf"
| "jadd NInf PInf = NaN"
| "jadd NInf NInf = NInf"
| "jadd NaN y = NaN"
| "jadd x NaN = NaN"

text \<open>The operator \<open>-\<close>.\<close>

definition jsub :: "jsnum \<Rightarrow> jsnum \<Rightarrow> jsnum" where
  "jsub x y = jadd x (jneg y)"

text \<open>The sign of an infinite product or quotient, given the sign of a finite factor.\<close>

definition signed_inf :: "real \<Rightarrow> jsnum" where
  "signed_inf a = (if a = 0 then NaN else if 0 < a then PInf else NInf)"

text \<open>The operator \<open>*\<close>.\<close>

fun jmul :: "jsnum \<Rightarrow> jsnum \<Rightarrow> jsnum" where
  "jmul (Fin a) (Fin b) = Fin (a * b)"
| "jmul (Fin a) PInf = signed_inf a"
| "jmul (Fin a) NInf = signed_inf (- a)"
| "jmul PInf (Fin b) = signed_inf b"
| "jmul PInf PInf = PInf"
| "jmul PInf NInf = NInf"
| "jmul NInf (Fin b) = signed_inf (- b)"
| "jmul NInf PInf = NInf"
| "jmul NInf NInf = PInf"
| "jmul NaN y = NaN"
| "jmul x NaN = NaN"

text \<open>
  The operator \<open>/\<close>. A finite nonzero value divided by zero is an infinity with the sign
  of the dividend, \<open>0 / 0\<close> is NaN, and nothing is raised.
\<close>

fun jdiv :: "jsnum \<Rightarrow> jsnum \<Rightarrow> jsnum" where
  "jdiv (Fin a) (Fin b) = (if b = 0 then signed_inf a else Fin (a / b))"
| "jdiv (Fin a) PInf = Fin 0"
| "jdiv (Fin a) NInf = Fin 0"
| "jdiv PInf (Fin b) = (if 0 \<le> b then PInf else NInf)"
| "jdiv NInf (Fin b) = (if 0 \<le> b then NInf else PInf)"
| "jdiv PInf PInf = NaN"
| "jdiv PInf NInf = NaN"
| "jdiv NInf PInf = NaN"
| "jdiv NInf NInf = NaN"
| "jdiv NaN y = NaN"
| "jdiv x NaN = NaN"

text \<open>The comparisons \<open><\<close> and \<open>>=\<close>; every comparison with NaN is false.\<close>

fun jless :: "jsnum \<Rightarrow> jsnum \<Rightarrow> bool" where
  "jless (Fin a) (Fin b) = (a < b)"
| "jless (Fin a) PInf = True"
| "jless NInf (Fin b) = True"
| "jless NInf PInf = True"
| "jless x y = False"

fun jge :: "jsnum \<Rightarrow> jsnum \<Rightarrow> bool" where
  "jge (Fin a) (Fin b) = (b \<le> a)"
| "jge PInf (Fin b) = True"
| "jge (Fin a) NInf = True"
| "jge PInf NInf = True"
| "jge PInf PInf = True"
| "jge NInf NInf = True"
| "jge x y = False"

definition jgreater :: "jsnum \<Rightarrow> jsnum \<Rightarrow> bool" where
  "jgreater x y = jless y x"

text \<open>The functions of \<open>Math\<close> that the module calls.\<close>

fun Math_sqrt :: "jsnum \<Rightarrow> jsnum" where
  "Math_sqrt (Fin a) = (if a < 0 then NaN else Fin (sqrt a))"
| "Math_sqrt PInf = PInf"
| "Math_sqrt NInf = NaN"
| "Math_sqrt NaN = NaN"

fun Math_log :: "jsnum \<Rightarrow> jsnum" where
  "Math_log (Fin a) = (if a < 0 then NaN else if a = 0 then NInf else Fin (ln a))"
| "Math_log PInf = PInf"
| "Math_log NInf = NaN"
| "Math_log NaN = NaN"

fun Math_cos :: "jsnum \<Rightarrow> jsnum" where
  "Math_cos (Fin a) = Fin (cos a)"
| "Math_cos x = NaN"

fun Math_sin :: "jsnum \<Rightarrow> jsnum" where
  "Math_sin (Fin a) = Fin (sin a)"
| "Math_sin x = NaN"

fun Math_abs :: "jsnum \<Rightarrow> jsnum" where
  "Math_abs (Fin a) = Fin \<bar>a\<bar>"
| "Math_abs PInf = PInf"
| "Math_abs NInf = PInf"
| "Math_abs NaN = NaN"

text \<open>\<open>Math.max\<close> of two arguments: NaN when either is NaN.\<close>

fun Math_max :: "jsnum \<Rightarrow> jsnum \<Rightarrow> jsnum" where
  "Math_max (Fin a) (Fin b) = Fin (max a b)"
| "Math_max NaN y = NaN"
| "Math_max x NaN = NaN"
| "Math_max PInf y = PInf"
| "Math_max x PInf = PInf"
| "Math_max NInf y = y"
| "Math_max x NInf = x"

text \<open>\<open>Math.round\<close>: the nearest integer, a tie going towards positive infinity.\<close>

fun Math_round :: "jsnum \<Rightarrow> jsnum" where
  "Math_round (Fin a) = Fin (of_int \<lfloor>a + 1 / 2\<rfloor>)"
| "Math_round x = x"

text \<open>\<open>Math.pow(x, 2)\<close>.\<close>

fun Math_pow2 :: "jsnum \<Rightarrow> jsnum" where
  "Math_pow2 (Fin a) = Fin (a ^ 2)"
| "Math_pow2 PInf = PInf"
| "Math_pow2 NInf = PInf"
| "Math_pow2 NaN = NaN"

definition Math_PI :: jsnum where
  "Math_PI = Fin pi"

section \<open>Arrays\<close>

text \<open>\<open>data.reduce((sum, val) => sum + val, 0)\<close>.\<close>

definition reduce_sum :: "jsnum list \<Rightarrow> jsnum" where
  "reduce_sum data = foldl jadd (Fin 0) data"

text \<open>\<open>data.length\<close> as a number.\<close>

definition length_num :: "'a list \<Rightarrow> jsnum" where
  "length_num data = Fin (real (length data))"

text \<open>
  \<open>data.slice(start)\<close> for an integral \<open>start\<close>: a negative start counts from the end,
  and the start is clamped to the array.
\<close>

definition slice_from :: "'a list \<Rightarrow> int \<Rightarrow> 'a list" where
  "slice_from data start =
     (let len = int (length data);
          k = (if start < 0 then max (len + start) 0 else min start len)
      in drop (nat k) data)"

text \<open>\<open>data[i]\<close> in arithmetic: a read past the end is \<open>undefined\<close>, which computes as NaN.\<close>

definition index_num :: "jsnum list \<Rightarrow> nat \<Rightarrow> jsnum" where
  "index_num data i = (if i < length data then data ! i else NaN)"

section \<open>The analytics functions\<close>

text \<open>\<open>calculateMovingAverage(data, period)\<close>, for an integral period.\<close>

definition calculateMovingAverage :: "jsnum list \<Rightarrow> int \<Rightarrow> jsnum" where
  "calculateMovingAverage data period =
     (if int (length data) < period then jdiv (reduce_sum data) (length_num data)
      else let recentData = slice_from data (- period)
           in jdiv (reduce_sum recentData) (Fin (of_int period)))"

text \<open>\<open>calculateVolatility(prices)\<close>.\<close>

definition calculateVolatility :: "jsnum list \<Rightarrow> jsnum" where
  "calculateVolatility prices =
     (if length prices < 2 then Fin 0
      else let mean = jdiv (reduce_sum prices) (length_num prices);
               squaredDifferences = map (\<lambda>price. Math_pow2 (jsub price mean)) prices;
               variance = jdiv (reduce_sum squaredDifferences) (length_num prices)
           in Math_sqrt variance)"

text \<open>
  The loop of \<open>calculateMarketEfficiency\<close>: the state is the index and the three
  accumulators \<open>numerator\<close>, \<open>denominator1\<close> and \<open>denominator2\<close>.
\<close>

function efficiency_loop ::
  "jsnum list \<Rightarrow> jsnum list \<Rightarrow> jsnum \<Rightarrow> jsnum \<Rightarrow> nat \<Rightarrow> nat \<Rightarrow> jsnum \<times> jsnum \<times> jsnum
     \<Rightarrow> jsnum \<times> jsnum \<times> jsnum" where
  "efficiency_loop prices1 prices2 mean1 mean2 n i (numerator, denominator1, denominator2) =
     (if i < n then
        let diff1 = jsub (index_num prices1 i) mean1;
            diff2 = jsub (index_num prices2 i) mean2
        in efficiency_loop prices1 prices2 mean1 mean2 n (i + 1)
             (jadd numerator (jmul diff1 diff2),
              jadd denominator1 (jmul diff1 diff1),
              jadd denominator2 (jmul diff2 diff2))
      else (numerator, denominator1, denominator2))"
  by pat_completeness auto
termination
  by (relation "measure (\<lambda>(prices1, prices2, mean1, mean2, n, i, acc). n - i)") auto

declare efficiency_loop.simps [simp del]

text \<open>\<open>calculateMarketEfficiency(prices1, prices2)\<close>.\<close>

definition calculateMarketEfficiency :: "jsnum list \<Rightarrow> jsnum list \<Rightarrow> jsnum" where
  "calculateMarketEfficiency prices1 prices2 =
     (if length prices1 \<noteq> length prices2 \<or> length prices1 < 2 then Fin 0
      else let n = length prices1;
               mean1 = jdiv (reduce_sum prices1) (Fin (real n));
               mean2 = jdiv (reduce_sum prices2) (Fin (real n))
           in case efficiency_loop prices1 prices2 mean1 mean2 n 0 (Fin 0, Fin 0, Fin 0) of
                (numerator, denominator1, denominator2) \<Rightarrow>
                  let correlation = jdiv numerator (Math_sqrt (jmul denominator1 denominator2))
                  in Math_abs correlation)"

section \<open>The market efficiency in binary64\<close>

text \<open>
  The returned value of \<open>calculateMarketEfficiency\<close> is promised to lie between 0 and 1,
  and whether it does depends on the rounding of each operation. This section repeats
  the function with that rounding.
\<close>

text \<open>The nearest integer, a tie going to the even neighbour.\<close>

definition round_half_even :: "real \<Rightarrow> int" where
  "round_half_even y =
     (let f = \<lfloor>y\<rfloor>
      in if y - of_int f < 1 / 2 then f
         else if 1 / 2 < y - of_int f then f + 1
         else if even f then f else f + 1)"

text \<open>
  The spacing of the binary64 numbers between \<open>2\<^sup>e\<close> and \<open>2\<^sup>e\<^sup>+\<^sup>1\<close>: their significand has
  53 bits.
\<close>

definition ulp :: "int \<Rightarrow> real" where
  "ulp e = (if 52 \<le> e then 2 ^ nat (e - 52) else 1 / 2 ^ nat (52 - e))"

text \<open>
  The binary64 number nearest to a real, with ties to even, as every arithmetic operation
  and \<open>Math.sqrt\<close> round their exact result. The exponent is not bounded: overflow to
  \<open>Infinity\<close> and the subnormal numbers are left out, and neither occurs in the
  evaluations below.
\<close>

definition round_binary64 :: "real \<Rightarrow> real" where
  "round_binary64 x =
     (if x = 0 then 0
      else let u = ulp \<lfloor>log 2 \<bar>x\<bar>\<rfloor> in of_int (round_half_even (x / u)) * u)"

text \<open>Rounding a number: the special values are kept.\<close>

fun binary64 :: "jsnum \<Rightarrow> jsnum" where
  "binary64 (Fin a) = Fin (round_binary64 a)"
| "binary64 x = x"

text \<open>The operators \<open>+\<close>, \<open>-\<close>, \<open>*\<close>, \<open>/\<close> and \<open>Math.sqrt\<close> with their rounding.\<close>

definition add64 :: "jsnum \<Rightarrow> jsnum \<Rightarrow> jsnum" where
  "add64 x y = binary64 (jadd x y)"

definition sub64 :: "jsnum \<Rightarrow> jsnum \<Rightarrow> jsnum" where
  "sub64 x y = binary64 (jsub x y)"

definition mul64 :: "jsnum \<Rightarrow> jsnum \<Rightarrow> jsnum" where
  "mul64 x y = binary64 (jmul x y)"

definition div64 :: "jsnum \<Rightarrow> jsnum \<Rightarrow> jsnum" where
  "div64 x y = binary64 (jdiv x y)"

definition sqrt64 :: "jsnum \<Rightarrow> jsnum" where
  "sqrt64 x = binary64 (Math_sqrt x)"

text \<open>
  \<open>calculateMarketEfficiency(prices1, prices2)\<close> once more, line by line as above, with
  every operation rounded.
\<close>

definition reduce_sum_binary64 :: "jsnum list \<Rightarrow> jsnum" where
  "reduce_sum_binary64 data = foldl add64 (Fin 0) data"

function efficiency_loop_binary64 ::
  "jsnum list \<Rightarrow> jsnum list \<Rightarrow> jsnum \<Rightarrow> jsnum \<Rightarrow> nat \<Rightarrow> nat \<Rightarrow> jsnum \<times> jsnum \<times> jsnum
     \<Rightarrow> jsnum \<times> jsnum \<times> jsnum" where
  "efficiency_loop_binary64 prices1 prices2 mean1 mean2 n i (numerator, denominator1, denominator2) =
     (if i < n then
        let diff1 = sub64 (index_num prices1 i) mean1;
            diff2 = sub64 (index_num prices2 i) mean2
        in efficiency_loop_binary64 prices1 prices2 mean1 mean2 n (i + 1)
             (add64 numerator (mul64 diff1 diff2),
              add64 denominator1 (mul64 diff1 diff1),
              add64 denominator2 (mul64 diff2 diff2))
      else (numerator, denominator1, denominator2))"
  by pat_completeness auto
termination
  by (relation "measure (\<lambda>(prices1, prices2, mean1, mean2, n, i, acc). n - i)") auto

declare efficiency_loop_binary64.simps [simp del]

definition calculateMarketEfficiency_binary64 :: "jsnum list \<Rightarrow> jsnum list \<Rightarrow> jsnum" where
  "calculateMarketEfficiency_binary64 prices1 prices2 =
     (if length prices1 \<noteq> length prices2 \<or> length prices1 < 2 then Fin 0
      else let n = length prices1;
               mean1 = div64 (reduce_sum_binary64 prices1) (Fin (real n));
               mean2 = div64 (reduce_sum_binary64 prices2) (Fin (real n))
           in case efficiency_loop_binary64 prices1 prices2 mean1 mean2 n 0 (Fin 0, Fin 0, Fin 0) of
                (numerator, denominator1, denominator2) \<Rightarrow>
                  let correlation = div64 numerator (sqrt64 (mul64 denominator1 denominator2))
                  in Math_abs correlation)"

section \<open>Dates\<close>

text \<open>
  A \<open>Date\<close> holds a time value: the milliseconds since the epoch, in UTC. The host's
  time zone gives the offset of local time from UTC in milliseconds, once for a UTC
  instant and once for a local time (the two differ around a daylight-saving
  transition). Time values stay far inside the range in which a \<open>Date\<close> is valid.
\<close>

record timezone =
  offset_at_utc :: "int \<Rightarrow> int"
  offset_at_local :: "int \<Rightarrow> int"

definition msPerDay :: int where
  "msPerDay = 86400000"

definition Day :: "int \<Rightarrow> int" where
  "Day t = t div msPerDay"

definition LocalTime :: "timezone \<Rightarrow> int \<Rightarrow> int" where
  "LocalTime tz t = t + offset_at_utc tz t"

definition UTC :: "timezone \<Rightarrow> int \<Rightarrow> int" where
  "UTC tz t = t - offset_at_local tz t"

text \<open>
  \<open>date.setDate(date.getDate() - i)\<close>: the day of the month is read and set in local
  time, and a day of the month below 1 counts back into the earlier months. The local
  date moves back by \<open>i\<close> days, the local time of day is kept, and the result is
  converted back to UTC.
\<close>

definition setDate_back :: "timezone \<Rightarrow> int \<Rightarrow> int \<Rightarrow> int" where
  "setDate_back tz t i = UTC tz (LocalTime tz t - i * msPerDay)"

text \<open>The year, month and day of the month of a day number, in the Gregorian calendar.\<close>

definition civil_from_days :: "int \<Rightarrow> int \<times> int \<times> int" where
  "civil_from_days z =
     (let s = z + 719468;
          era = s div 146097;
          doe = s - era * 146097;
          yoe = (doe - doe div 1460 + doe div 36524 - doe div 146096) div 365;
          doy = doe - (365 * yoe + yoe div 4 - yoe div 100);
          mp = (5 * doy + 2) div 153;
          d = doy - (153 * mp + 2) div 5 + 1;
          m = (if mp < 10 then mp + 3 else mp - 9);
          y = yoe + era * 400
      in (if m \<le> 2 then y + 1 else y, m, d))"

definition digit :: "int \<Rightarrow> char" where
  "digit n = ''0123456789'' ! nat (n mod 10)"

definition two_digits :: "int \<Rightarrow> string" where
  "two_digits n = [digit (n div 10), digit n]"

definition four_digits :: "int \<Rightarrow> string" where
  "four_digits n = two_digits (n div 100) @ two_digits n"

definition six_digits :: "int \<Rightarrow> string" where
  "six_digits n = two_digits (n div 10000) @ four_digits n"

text \<open>
  \<open>date.toISOString().split('T')[0]\<close>: the calendar date of the time value in UTC, as
  \<open>YYYY-MM-DD\<close> (a year outside 0 to 9999 is written with a sign and six digits).
\<close>

definition toISOString_date :: "int \<Rightarrow> string" where
  "toISOString_date t =
     (case civil_from_days (Day t) of
        (y, m, d) \<Rightarrow>
          (if 0 \<le> y \<and> y \<le> 9999 then four_digits y
           else (if y < 0 then ''-'' else ''+'') @ six_digits \<bar>y\<bar>)
          @ ''-'' @ two_digits m @ ''-'' @ two_digits d)"

section \<open>The price synthesizer\<close>

text \<open>
  Modelled from the spec: the enumerations \<open>City\<close> and \<open>Commodity\<close> and the record types
  \<open>MarketData\<close> and \<open>PriceData\<close> are declared in \<open>types/market\<close>, which is not among the
  sources; the spec gives the closed sets of cities and commodities, and the fields are
  those of the object literals the module builds.
\<close>

datatype City = NAIROBI | MOMBASA

datatype Commodity = MAIZE | BEANS

record MarketData =
  city :: City
  commodity :: Commodity
  maizePrice :: jsnum
  maizeChange :: jsnum
  beansPrice :: jsnum
  beansChange :: jsnum
  lastUpdated :: int

record PriceData =
  date :: string
  nairobiMaize :: jsnum
  nairobiBeans :: jsnum
  mombasaMaize :: jsnum
  mombasaBeans :: jsnum

text \<open>The constant tables \<open>BASE_PRICES\<close> and \<open>VOLATILITY\<close>.\<close>

fun BASE_PRICES :: "Commodity \<Rightarrow> City \<Rightarrow> jsnum" where
  "BASE_PRICES MAIZE NAIROBI = Fin 4500"
| "BASE_PRICES MAIZE MOMBASA = Fin 4200"
| "BASE_PRICES BEANS NAIROBI = Fin 8500"
| "BASE_PRICES BEANS MOMBASA = Fin 8200"

fun VOLATILITY :: "Commodity \<Rightarrow> jsnum" where
  "VOLATILITY MAIZE = Fin 0.15"
| "VOLATILITY BEANS = Fin 0.20"

text \<open>
  The random source is the sequence of values that successive calls of \<open>Math.random()\<close>
  return; the state threaded through the generators is the number of values drawn so far.

  \<open>generatePriceFluctuation(basePrice, volatility)\<close> draws two values and returns the
  fluctuated price.
\<close>

definition generatePriceFluctuation ::
  "jsnum \<Rightarrow> jsnum \<Rightarrow> (nat \<Rightarrow> real) \<Rightarrow> nat \<Rightarrow> jsnum \<times> nat" where
  "generatePriceFluctuation basePrice volatility random k =
     (let random1 = Fin (random k);
          random2 = Fin (random (k + 1));
          normalRandom =
            jmul (Math_sqrt (jmul (Fin (- 2)) (Math_log random1)))
                 (Math_cos (jmul (jmul (Fin 2) Math_PI) random2));
          fluctuation = jmul (jmul normalRandom volatility) basePrice
      in (Math_max (jadd basePrice fluctuation) (jmul basePrice (Fin 0.5)), k + 2))"

text \<open>\<open>calculatePriceChange(currentPrice, basePrice)\<close>.\<close>

definition calculatePriceChange :: "jsnum \<Rightarrow> jsnum \<Rightarrow> jsnum" where
  "calculatePriceChange currentPrice basePrice =
     (let changePercent = jmul (jdiv (jsub currentPrice basePrice) basePrice) (Fin 100)
      in jdiv (Math_round (jmul changePercent (Fin 10))) (Fin 10))"

text \<open>
  \<open>generateMarketData()\<close>: \<open>now\<close> is the time value of \<open>new Date()\<close>. The result is the
  array of two records and the new state of the random source.
\<close>

definition generateMarketData :: "int \<Rightarrow> (nat \<Rightarrow> real) \<Rightarrow> nat \<Rightarrow> MarketData list \<times> nat" where
  "generateMarketData now random k0 =
     (let currentTime = now;
          (p1, k1) = generatePriceFluctuation (BASE_PRICES MAIZE NAIROBI) (VOLATILITY MAIZE) random k0;
          nairobiMaizePrice = Math_round p1;
          (p2, k2) = generatePriceFluctuation (BASE_PRICES MAIZE MOMBASA) (VOLATILITY MAIZE) random k1;
          mombasaMaizePrice = Math_round p2;
          (p3, k3) = generatePriceFluctuation (BASE_PRICES BEANS NAIROBI) (VOLATILITY BEANS) random k2;
          nairobiBeansPrice = Math_round p3;
          (p4, k4) = generatePriceFluctuation (BASE_PRICES BEANS MOMBASA) (VOLATILITY BEANS) random k3;
          mombasaBeansPrice = Math_round p4;
          nairobiMaizeChange = calculatePriceChange nairobiMaizePrice (BASE_PRICES MAIZE NAIROBI);
          mombasaMaizeChange = calculatePriceChange mombasaMaizePrice (BASE_PRICES MAIZE MOMBASA);
          nairobiBeansChange = calculatePriceChange nairobiBeansPrice (BASE_PRICES BEANS NAIROBI);
          mombasaBeansChange = calculatePriceChange mombasaBeansPrice (BASE_PRICES BEANS MOMBASA)
      in ([\<lparr>city = NAIROBI, commodity = MAIZE,
             maizePrice = nairobiMaizePrice, maizeChange = nairobiMaizeChange,
             beansPrice = nairobiBeansPrice, beansChange = nairobiBeansChange,
             lastUpdated = currentTime\<rparr>,
           \<lparr>city = MOMBASA, commodity = BEANS,
             maizePrice = mombasaMaizePrice, maizeChange = mombasaMaizeChange,
             beansPrice = mombasaBeansPrice, beansChange = mombasaBeansChange,
             lastUpdated = currentTime\<rparr>], k4))"

text \<open>
  The two factors of the loop body of \<open>generateHistoricalData\<close>, as functions of the loop
  variable \<open>i\<close>, the number of days before today.
\<close>

definition trendFactor :: "int \<Rightarrow> jsnum" where
  "trendFactor i = jadd (Fin 1) (jmul (Fin (of_int i)) (Fin 0.001))"

definition seasonalFactor :: "int \<Rightarrow> jsnum" where
  "seasonalFactor i =
     jadd (Fin 1)
       (jmul (Math_sin (jmul (jmul (jdiv (Fin (of_int i)) (Fin 30)) Math_PI) (Fin 2))) (Fin 0.05))"

text \<open>The base price of a commodity and city as shaped for the day \<open>i\<close>.\<close>

definition shaped_base :: "Commodity \<Rightarrow> City \<Rightarrow> int \<Rightarrow> jsnum" where
  "shaped_base c t i = jmul (jmul (BASE_PRICES c t) (trendFactor i)) (seasonalFactor i)"

text \<open>One pass through the loop body: the point of day \<open>i\<close> and the new random state.\<close>

definition history_point ::
  "timezone \<Rightarrow> int \<Rightarrow> (nat \<Rightarrow> real) \<Rightarrow> int \<Rightarrow> nat \<Rightarrow> PriceData \<times> nat" where
  "history_point tz today random i k0 =
     (let d = setDate_back tz today i;
          (p1, k1) = generatePriceFluctuation (shaped_base MAIZE NAIROBI i)
                       (jmul (VOLATILITY MAIZE) (Fin 0.5)) random k0;
          (p2, k2) = generatePriceFluctuation (shaped_base BEANS NAIROBI i)
                       (jmul (VOLATILITY BEANS) (Fin 0.5)) random k1;
          (p3, k3) = generatePriceFluctuation (shaped_base MAIZE MOMBASA i)
                       (jmul (VOLATILITY MAIZE) (Fin 0.5)) random k2;
          (p4, k4) = generatePriceFluctuation (shaped_base BEANS MOMBASA i)
                       (jmul (VOLATILITY BEANS) (Fin 0.5)) random k3
      in (\<lparr>date = toISOString_date d,
            nairobiMaize = Math_round p1, nairobiBeans = Math_round p2,
            mombasaMaize = Math_round p3, mombasaBeans = Math_round p4\<rparr>, k4))"

text \<open>The loop \<open>for (let i = 29; i >= 0; i--)\<close>, pushing one point in each pass.\<close>

function history_loop ::
  "timezone \<Rightarrow> int \<Rightarrow> (nat \<Rightarrow> real) \<Rightarrow> int \<Rightarrow> nat \<Rightarrow> PriceData list \<Rightarrow> PriceData list \<times> nat" where
  "history_loop tz today random i k historicalData =
     (if 0 \<le> i then
        (case history_point tz today random i k of
           (point, k') \<Rightarrow> history_loop tz today random (i - 1) k' (historicalData @ [point]))
      else (historicalData, k))"
  by pat_completeness auto
termination
  by (relation "measure (\<lambda>(tz, today, random, i, k, historicalData). nat (i + 1))") auto

declare history_loop.simps [simp del]

text \<open>\<open>generateHistoricalData()\<close>: \<open>today\<close> is the time value of \<open>new Date()\<close>.\<close>

definition generateHistoricalData ::
  "timezone \<Rightarrow> int \<Rightarrow> (nat \<Rightarrow> real) \<Rightarrow> nat \<Rightarrow> PriceData list \<times> nat" where
  "generateHistoricalData tz today random k = history_loop tz today random 29 k []"

text \<open>
  Names for intermediate values of the generators: the Box-Muller sample computed from
  the draws at positions \<open>k\<close> and \<open>k + 1\<close>, and the rounded price that the snapshot and the
  history generator compute for a commodity and a city from those draws.
\<close>

definition normal_sample :: "(nat \<Rightarrow> real) \<Rightarrow> nat \<Rightarrow> real" where
  "normal_sample random k = sqrt (- 2 * ln (random k)) * cos (2 * pi * random (k + 1))"

definition snapshot_price :: "Commodity \<Rightarrow> City \<Rightarrow> (nat \<Rightarrow> real) \<Rightarrow> nat \<Rightarrow> jsnum" where
  "snapshot_price c t random k =
     Math_round (fst (generatePriceFluctuation (BASE_PRICES c t) (VOLATILITY c) random k))"

definition history_price :: "Commodity \<Rightarrow> City \<Rightarrow> int \<Rightarrow> (nat \<Rightarrow> real) \<Rightarrow> nat \<Rightarrow> jsnum" where
  "history_price c t i random k =
     Math_round (fst (generatePriceFluctuation (shaped_base c t i)
                        (jmul (VOLATILITY c) (Fin 0.5)) random k))"

text \<open>
  Concrete hosts for evaluating the generators: a time zone with a constant offset, and a
  random source whose draws alternate between \<open>2\<^sup>-\<^sup>5\<^sup>0\<close> and \<open>1/2\<close>, which makes every
  Box-Muller sample strongly negative.
\<close>

definition fixed_zone :: "int \<Rightarrow> timezone" where
  "fixed_zone off = \<lparr>offset_at_utc = (\<lambda>t. off), offset_at_local = (\<lambda>t. off)\<rparr>"

definition low_draws :: "nat \<Rightarrow> real" where
  "low_draws k = (if even k then 1 / 2 ^ 50 else 1 / 2)"

text \<open>
  A random source whose first draw is just below 1 and whose other draws are \<open>1/2\<close>: the
  first Box-Muller sample is negative and very small.
\<close>

definition near_draws :: "nat \<Rightarrow> real" where
  "near_draws k = (if k = 0 then 999999 / 1000000 else 1 / 2)"

text \<open>
  The time zone of New York around the start of daylight-saving time in 2026: five hours
  behind UTC before 2026-03-08 07:00 UTC (02:00 local time) and four hours behind from
  then on; a local time in the skipped hour is read with the offset before the change.
\<close>

definition msPerHour :: int where
  "msPerHour = 3600000"

definition new_york_spring_2026 :: timezone where
  "new_york_spring_2026 =
     \<lparr>offset_at_utc = (\<lambda>t. if t < 1772953200000 then - 5 * msPerHour else - 4 * msPerHour),
      offset_at_local = (\<lambda>t. if t < 1772953200000 - 4 * msPerHour then - 5 * msPerHour
                              else - 4 * msPerHour)\<rparr>"

section \<open>The statistics the specification names\<close>

text \<open>The arithmetic mean of a series.\<close>

definition mean :: "real list \<Rightarrow> real" where
  "mean xs = sum_list xs / real (length xs)"

text \<open>The trailing window: the last \<open>k\<close> elements of a series.\<close>

definition last_elements :: "nat \<Rightarrow> 'a list \<Rightarrow> 'a list" where
  "last_elements k xs = drop (length xs - k) xs"

text \<open>
  The population standard deviation: the mean, then the mean of the squared deviations
  from the mean, then the square root.
\<close>

definition population_stddev :: "real list \<Rightarrow> real" where
  "population_stddev xs = sqrt (mean (map (\<lambda>x. (x - mean xs) ^ 2) xs))"

text \<open>The population covariance of two series of the same length.\<close>

definition covariance :: "real list \<Rightarrow> real list \<Rightarrow> real" where
  "covariance xs ys =
     mean (map (\<lambda>(x, y). (x - mean xs) * (y - mean ys)) (zip xs ys))"

text \<open>
  The Pearson correlation coefficient: the covariance normalised by the product of the
  two standard deviations.
\<close>

definition pearson :: "real list \<Rightarrow> real list \<Rightarrow> real" where
  "pearson xs ys = covariance xs ys / (population_stddev xs * population_stddev ys)"

text \<open>
  The sum of the products of the deviations from the means, by position: the covariance
  before its division by the length, and for one series taken twice its sum of squared
  deviations.
\<close>

definition deviation_products :: "real list \<Rightarrow> real list \<Rightarrow> real" where
  "deviation_products xs ys =
     (\<Sum>k = 0..<length xs. (xs ! k - mean xs) * (ys ! k - mean ys))"

section \<open>Sums of finite series\<close>

lemma foldl_jadd_Fin: "foldl jadd (Fin a) (map Fin xs) = Fin (a + sum_list xs)"
  by (induction xs arbitrary: a) (simp_all add: add.assoc)

lemma reduce_sum_Fin: "reduce_sum (map Fin xs) = Fin (sum_list xs)"
  by (simp add: reduce_sum_def foldl_jadd_Fin)

section \<open>Moving average\<close>

lemma slice_from_last:
  assumes "1 \<le> period" "period \<le> int (length xs)"
  shows "slice_from xs (- period) = last_elements (nat period) xs"
proof -
  have "nat (int (length xs) - period) = length xs - nat period"
    using assms by linarith
  then show ?thesis
    using assms by (simp add: slice_from_def last_elements_def Let_def max_def)
qed

lemma moving_average_short:
  assumes "xs \<noteq> []" "int (length xs) < period"
  shows "calculateMovingAverage (map Fin xs) period = Fin (mean xs)"
  using assms by (simp add: calculateMovingAverage_def reduce_sum_Fin length_num_def mean_def)

lemma moving_average_window:
  assumes "1 \<le> period" "period \<le> int (length xs)"
  shows "calculateMovingAverage (map Fin xs) period = Fin (mean (last_elements (nat period) xs))"
proof -
  have len: "length (last_elements (nat period) xs) = nat period"
    using assms by (simp add: last_elements_def)
  have "slice_from (map Fin xs) (- period) = map Fin (last_elements (nat period) xs)"
    using slice_from_last [of period "map Fin xs"] assms
    by (simp add: last_elements_def drop_map)
  then show ?thesis
    using assms len by (simp add: calculateMovingAverage_def reduce_sum_Fin mean_def)
qed

lemma moving_average_example_short:
  "calculateMovingAverage [Fin 10, Fin 20, Fin 30] 7 = Fin 20"
  by (simp add: calculateMovingAverage_def reduce_sum_def length_num_def)

lemma moving_average_example_window:
  "calculateMovingAverage
     [Fin 1, Fin 2, Fin 3, Fin 4, Fin 5, Fin 6, Fin 7, Fin 8, Fin 9, Fin 10] 3 = Fin 9"
  by (simp add: calculateMovingAverage_def reduce_sum_def slice_from_def)

text \<open>
  C6. For a non-empty series of finite numbers and an integral period of at least 1,
  \<open>calculateMovingAverage\<close> returns the arithmetic mean of the whole series when the
  series is shorter than the period, and the arithmetic mean of the last \<open>period\<close>
  elements otherwise; the moving average of 10, 20, 30 over 7 is 20, and that of
  1, ..., 10 over 3 is 9.
\<close>

theorem moving_average_spec:
  "(xs \<noteq> [] \<and> 1 \<le> period \<longrightarrow>
      calculateMovingAverage (map Fin xs) period =
        (if int (length xs) < period then Fin (mean xs)
         else Fin (mean (last_elements (nat period) xs))))
   \<and> calculateMovingAverage [Fin 10, Fin 20, Fin 30] 7 = Fin 20
   \<and> calculateMovingAverage
        [Fin 1, Fin 2, Fin 3, Fin 4, Fin 5, Fin 6, Fin 7, Fin 8, Fin 9, Fin 10] 3 = Fin 9"
  using moving_average_short [of xs period] moving_average_window [of period xs]
    moving_average_example_short moving_average_example_window
  by auto

theorem moving_average_spec_witness:
  "[4, 8, 6, 2 :: real] \<noteq> [] \<and> (1::int) \<le> 2 \<and>
   calculateMovingAverage (map Fin [4, 8, 6, 2]) 2 = Fin 4"
  using moving_average_spec [of "[4, 8, 6, 2]" 2]
  by (simp add: mean_def last_elements_def)

section \<open>Volatility\<close>

lemma sum_list_squares_nonneg: "0 \<le> (\<Sum>x\<leftarrow>xs. (f x :: real) ^ 2)"
  by (induction xs) simp_all

lemma squared_differences_Fin:
  "reduce_sum (map ((\<lambda>price. Math_pow2 (jsub price (Fin m))) \<circ> Fin) xs) =
     Fin (\<Sum>x\<leftarrow>xs. (x - m) ^ 2)"
proof -
  have "map ((\<lambda>price. Math_pow2 (jsub price (Fin m))) \<circ> Fin) xs =
          map Fin (map (\<lambda>x. (x - m) ^ 2) xs)"
    by (simp add: jsub_def)
  then show ?thesis
    by (simp only: reduce_sum_Fin)
qed

lemma volatility_short: "length prices < 2 \<Longrightarrow> calculateVolatility prices = Fin 0"
  by (simp add: calculateVolatility_def)

lemma volatility_stddev:
  assumes "2 \<le> length xs"
  shows "calculateVolatility (map Fin xs) = Fin (population_stddev xs)"
proof -
  have n: "real (length xs) \<noteq> 0" using assms by auto
  have nonneg: "0 \<le> (\<Sum>x\<leftarrow>xs. (x - mean xs) ^ 2) / real (length xs)"
    by (intro divide_nonneg_nonneg sum_list_squares_nonneg) simp
  show ?thesis
    using assms n nonneg
    by (simp add: calculateVolatility_def Let_def reduce_sum_Fin length_num_def
          squared_differences_Fin population_stddev_def mean_def)
qed

lemma volatility_example_constant: "calculateVolatility [Fin 100, Fin 100, Fin 100] = Fin 0"
  by (simp add: calculateVolatility_def reduce_sum_def length_num_def jsub_def)

lemma volatility_example_empty: "calculateVolatility [] = Fin 0"
  by (simp add: calculateVolatility_def)

lemma sqrt_25: "sqrt 25 = 5"
  using real_sqrt_abs [of 5] by simp

lemma volatility_example_pair: "calculateVolatility [Fin 10, Fin 20] = Fin 5"
  by (simp add: calculateVolatility_def reduce_sum_def length_num_def jsub_def sqrt_25)

text \<open>
  C7. On a series of finite numbers \<open>calculateVolatility\<close> returns 0 when the series has
  fewer than 2 elements (the empty series included) and the population standard
  deviation otherwise; the volatility of 100, 100, 100 is 0, that of the empty series
  is 0, and that of 10, 20 is 5.
\<close>

theorem volatility_spec:
  "calculateVolatility (map Fin xs) =
     (if length xs < 2 then Fin 0 else Fin (population_stddev xs))
   \<and> calculateVolatility [Fin 100, Fin 100, Fin 100] = Fin 0
   \<and> calculateVolatility [] = Fin 0
   \<and> calculateVolatility [Fin 10, Fin 20] = Fin 5"
  using volatility_short [of "map Fin xs"] volatility_stddev [of xs]
    volatility_example_constant volatility_example_empty volatility_example_pair
  by auto

theorem volatility_spec_witness:
  "calculateVolatility (map Fin [1, 3]) = Fin 1"
  using volatility_spec [of "[1, 3]"]
  by (simp add: population_stddev_def mean_def)

section \<open>Market efficiency: symmetry\<close>

lemma jmul_commute: "jmul x y = jmul y x"
  by (cases x; cases y) (simp_all add: mult.commute)

lemma efficiency_loop_swap:
  "efficiency_loop prices2 prices1 mean2 mean1 n i (numerator, denominator2, denominator1) =
     (case efficiency_loop prices1 prices2 mean1 mean2 n i (numerator, denominator1, denominator2)
      of (a, b, c) \<Rightarrow> (a, c, b))"
proof (induction prices1 prices2 mean1 mean2 n i "(numerator, denominator1, denominator2)"
    arbitrary: numerator denominator1 denominator2 rule: efficiency_loop.induct)
  case (1 prices1 prices2 mean1 mean2 n i numerator denominator1 denominator2)
  show ?case
  proof (cases "i < n")
    case True
    then show ?thesis
      using 1 [OF True refl refl]
      by (subst efficiency_loop.simps, subst (2) efficiency_loop.simps)
         (simp add: Let_def
            jmul_commute [of "jsub (index_num prices2 i) mean2" "jsub (index_num prices1 i) mean1"])
  next
    case False
    then show ?thesis
      by (subst efficiency_loop.simps, subst (2) efficiency_loop.simps) simp
  qed
qed

text \<open>
  C10. \<open>calculateMarketEfficiency\<close> is symmetric in its two arguments: for every two
  series, whatever their lengths and whatever numbers they hold, swapping them gives
  the same value (the same special value where the result is not finite).
\<close>

theorem efficiency_symmetric:
  "calculateMarketEfficiency a b = calculateMarketEfficiency b a"
proof (cases "length a \<noteq> length b \<or> length a < 2")
  case True
  then show ?thesis
    by (auto simp add: calculateMarketEfficiency_def)
next
  case False
  then have len: "length b = length a" "\<not> length a < 2" by auto
  obtain num d1 d2 where
    loop: "efficiency_loop a b (jdiv (reduce_sum a) (Fin (real (length a))))
             (jdiv (reduce_sum b) (Fin (real (length a)))) (length a) 0 (Fin 0, Fin 0, Fin 0)
           = (num, d1, d2)"
    by (metis prod_cases3)
  have swapped: "efficiency_loop b a (jdiv (reduce_sum b) (Fin (real (length a))))
             (jdiv (reduce_sum a) (Fin (real (length a)))) (length a) 0 (Fin 0, Fin 0, Fin 0)
           = (num, d2, d1)"
    by (simp add: efficiency_loop_swap [of b a] loop)
  show ?thesis
    using len by (simp add: calculateMarketEfficiency_def Let_def loop swapped jmul_commute [of d1 d2])
qed

theorem efficiency_symmetric_witness:
  "calculateMarketEfficiency [Fin 1, Fin 2, Fin 4] [Fin 3, Fin 1, Fin 2] =
   calculateMarketEfficiency [Fin 3, Fin 1, Fin 2] [Fin 1, Fin 2, Fin 4]"
  using efficiency_symmetric [of "[Fin 1, Fin 2, Fin 4]" "[Fin 3, Fin 1, Fin 2]"] .

section \<open>Market efficiency: the loop as sums\<close>

lemma efficiency_loop_Fin:
  assumes "n \<le> length xs" "n \<le> length ys"
  shows "efficiency_loop (map Fin xs) (map Fin ys) (Fin m1) (Fin m2) n i (Fin a, Fin b, Fin c) =
           (Fin (a + (\<Sum>k = i..<n. (xs ! k - m1) * (ys ! k - m2))),
            Fin (b + (\<Sum>k = i..<n. (xs ! k - m1) * (xs ! k - m1))),
            Fin (c + (\<Sum>k = i..<n. (ys ! k - m2) * (ys ! k - m2))))"
  using assms
proof (induction "n - i" arbitrary: i a b c)
  case 0
  then show ?case
    by (subst efficiency_loop.simps) simp
next
  case (Suc d)
  then have lt: "i < n" and d: "d = n - (i + 1)" by auto
  have split: "\<And>f :: nat \<Rightarrow> real. (\<Sum>k = i..<n. f k) = f i + (\<Sum>k = i + 1..<n. f k)"
    using lt by (simp add: sum.atLeast_Suc_lessThan)
  show ?case
    using lt Suc.prems Suc.hyps(1) [OF d Suc.prems]
    by (subst efficiency_loop.simps)
       (simp add: Let_def index_num_def jsub_def split [of "\<lambda>k. (xs ! k - m1) * (ys ! k - m2)"]
          split [of "\<lambda>k. (xs ! k - m1) * (xs ! k - m1)"]
          split [of "\<lambda>k. (ys ! k - m2) * (ys ! k - m2)"] add.assoc)
qed

lemma cauchy_schwarz_step:
  fixes a b P A B :: real
  assumes "P\<^sup>2 \<le> A * B" "0 \<le> A" "0 \<le> B"
  shows "(a * b + P)\<^sup>2 \<le> (a\<^sup>2 + A) * (b\<^sup>2 + B)"
proof -
  have "(2 * a * b * P)\<^sup>2 = 4 * (a\<^sup>2 * b\<^sup>2) * P\<^sup>2"
    by (simp add: power2_eq_square)
  also have "\<dots> \<le> 4 * (a\<^sup>2 * b\<^sup>2) * (A * B)"
    using assms(1) by (intro mult_left_mono) simp_all
  also have "\<dots> = 4 * (a\<^sup>2 * B) * (b\<^sup>2 * A)"
    by simp
  also have "\<dots> \<le> (a\<^sup>2 * B + b\<^sup>2 * A)\<^sup>2"
  proof -
    have "0 \<le> (a\<^sup>2 * B - b\<^sup>2 * A)\<^sup>2" by simp
    then show ?thesis by (simp add: power2_eq_square algebra_simps)
  qed
  finally have "\<bar>2 * a * b * P\<bar> \<le> \<bar>a\<^sup>2 * B + b\<^sup>2 * A\<bar>"
    by (simp only: abs_le_square_iff)
  moreover have "0 \<le> a\<^sup>2 * B + b\<^sup>2 * A"
    using assms by simp
  ultimately have "2 * a * b * P \<le> a\<^sup>2 * B + b\<^sup>2 * A"
    by linarith
  moreover have "(a * b + P)\<^sup>2 = a\<^sup>2 * b\<^sup>2 + 2 * a * b * P + P\<^sup>2"
    by (simp add: power2_eq_square algebra_simps)
  moreover have "(a\<^sup>2 + A) * (b\<^sup>2 + B) = a\<^sup>2 * b\<^sup>2 + (a\<^sup>2 * B + b\<^sup>2 * A) + A * B"
    by (simp add: algebra_simps)
  ultimately show ?thesis
    using assms(1) by linarith
qed

lemma cauchy_schwarz_sum:
  fixes u v :: "nat \<Rightarrow> real"
  shows "(\<Sum>k = 0..<n. u k * v k)\<^sup>2 \<le> (\<Sum>k = 0..<n. u k * u k) * (\<Sum>k = 0..<n. v k * v k)"
proof (induction n)
  case 0
  show ?case by simp
next
  case (Suc n)
  have A: "0 \<le> (\<Sum>k = 0..<n. u k * u k)" by (intro sum_nonneg) simp
  have B: "0 \<le> (\<Sum>k = 0..<n. v k * v k)" by (intro sum_nonneg) simp
  show ?case
    using cauchy_schwarz_step [OF Suc.IH A B, of "u n" "v n"]
    by (simp add: power2_eq_square algebra_simps)
qed

section \<open>Market efficiency: correlation\<close>

lemma sum_list_map_nth:
  "sum_list (map f xs) = (\<Sum>k = 0..<length xs. (f (xs ! k) :: real))"
proof -
  have "(\<Sum>k = 0..<length (map f xs). map f xs ! k) = (\<Sum>k = 0..<length xs. f (xs ! k))"
    by (intro sum.cong) simp_all
  then show ?thesis
    by (simp only: sum_list_sum_nth)
qed

lemma deviation_products_nonneg: "0 \<le> deviation_products xs xs"
  unfolding deviation_products_def by (intro sum_nonneg) simp

lemma deviation_products_cauchy_schwarz:
  assumes "length ys = length xs"
  shows "(deviation_products xs ys)\<^sup>2 \<le> deviation_products xs xs * deviation_products ys ys"
  using assms
    cauchy_schwarz_sum [of "\<lambda>k. xs ! k - mean xs" "\<lambda>k. ys ! k - mean ys" "length xs"]
  by (simp add: deviation_products_def)

lemma stddev_deviation_products:
  "population_stddev xs = sqrt (deviation_products xs xs / real (length xs))"
  by (simp add: population_stddev_def deviation_products_def mean_def [of "map f zs" for f zs]
      sum_list_map_nth power2_eq_square)

lemma covariance_deviation_products:
  assumes "length ys = length xs"
  shows "covariance xs ys = deviation_products xs ys / real (length xs)"
proof -
  have "(\<Sum>k = 0..<length (zip xs ys). case zip xs ys ! k of (x, y) \<Rightarrow> (x - mean xs) * (y - mean ys))
        = (\<Sum>k = 0..<length xs. (xs ! k - mean xs) * (ys ! k - mean ys))"
    using assms by (intro sum.cong) simp_all
  then show ?thesis
    using assms
    by (simp add: covariance_def deviation_products_def mean_def [of "map f zs" for f zs]
        sum_list_map_nth)
qed

lemma efficiency_value:
  assumes "length ys = length xs" "2 \<le> length xs"
  shows "calculateMarketEfficiency (map Fin xs) (map Fin ys) =
           Math_abs (jdiv (Fin (deviation_products xs ys))
             (Math_sqrt (Fin (deviation_products xs xs * deviation_products ys ys))))"
proof -
  have n: "real (length xs) \<noteq> 0" using assms by auto
  have m1: "jdiv (reduce_sum (map Fin xs)) (Fin (real (length xs))) = Fin (mean xs)"
    using n by (simp add: reduce_sum_Fin mean_def)
  have m2: "jdiv (reduce_sum (map Fin ys)) (Fin (real (length xs))) = Fin (mean ys)"
    using n assms by (simp add: reduce_sum_Fin mean_def)
  have loop: "efficiency_loop (map Fin xs) (map Fin ys) (Fin (mean xs)) (Fin (mean ys))
                (length xs) 0 (Fin 0, Fin 0, Fin 0) =
              (Fin (deviation_products xs ys), Fin (deviation_products xs xs),
               Fin (deviation_products ys ys))"
    using assms efficiency_loop_Fin [of "length xs" xs ys "mean xs" "mean ys" 0 0 0 0]
    by (simp add: deviation_products_def)
  show ?thesis
    using assms by (simp add: calculateMarketEfficiency_def Let_def m1 m2 loop)
qed

lemma efficiency_zero_variance:
  assumes "length ys = length xs" "2 \<le> length xs"
    and "deviation_products xs xs = 0 \<or> deviation_products ys ys = 0"
  shows "calculateMarketEfficiency (map Fin xs) (map Fin ys) = NaN"
proof -
  have "(deviation_products xs ys)\<^sup>2 \<le> 0"
    using deviation_products_cauchy_schwarz [OF assms(1)] assms(3) by auto
  then have "deviation_products xs ys = 0" by simp
  then show ?thesis
    using assms(3) by (auto simp add: efficiency_value [OF assms(1,2)] signed_inf_def)
qed

lemma efficiency_nonzero_variance:
  assumes "length ys = length xs" "2 \<le> length xs"
    and "deviation_products xs xs \<noteq> 0" "deviation_products ys ys \<noteq> 0"
  shows "calculateMarketEfficiency (map Fin xs) (map Fin ys) =
           Fin \<bar>deviation_products xs ys /
                sqrt (deviation_products xs xs * deviation_products ys ys)\<bar>"
proof -
  have "0 < deviation_products xs xs * deviation_products ys ys"
    using assms(3,4) deviation_products_nonneg [of xs] deviation_products_nonneg [of ys]
    by (simp add: less_le)
  then have "\<not> sqrt (deviation_products xs xs * deviation_products ys ys) = 0"
    and "\<not> deviation_products xs xs * deviation_products ys ys < 0"
    using assms(3,4) by simp_all
  then show ?thesis
    unfolding efficiency_value [OF assms(1,2)] by (simp del: real_sqrt_eq_zero_cancel_iff mult_eq_0_iff)
qed

lemma pearson_deviation_products:
  assumes "length ys = length xs" "0 < length xs"
  shows "pearson xs ys =
           deviation_products xs ys / sqrt (deviation_products xs xs * deviation_products ys ys)"
proof -
  have n: "0 < real (length xs)" using assms by simp
  have "sqrt (deviation_products xs xs / real (length xs)) *
        sqrt (deviation_products ys ys / real (length xs)) =
        sqrt (deviation_products xs xs * deviation_products ys ys) / real (length xs)"
    using n by (simp add: real_sqrt_mult [symmetric] real_sqrt_divide del: real_sqrt_mult)
  then show ?thesis
    using n assms
    by (simp add: pearson_def covariance_deviation_products stddev_deviation_products)
qed

lemma stddev_zero_iff:
  assumes "0 < length xs"
  shows "population_stddev xs = 0 \<longleftrightarrow> deviation_products xs xs = 0"
  using assms by (simp add: stddev_deviation_products)

lemma correlation_bound:
  assumes "length ys = length xs"
  shows "\<bar>deviation_products xs ys / sqrt (deviation_products xs xs * deviation_products ys ys)\<bar> \<le> 1"
proof (cases "deviation_products xs xs * deviation_products ys ys = 0")
  case True
  then have "sqrt (deviation_products xs xs * deviation_products ys ys) = 0"
    by (simp only: real_sqrt_zero)
  then show ?thesis by (simp only: div_by_0 abs_zero zero_le_one)
next
  case False
  let ?D = "deviation_products xs xs * deviation_products ys ys"
  have pos: "0 < ?D"
    using False deviation_products_nonneg [of xs] deviation_products_nonneg [of ys]
    by (simp add: less_le)
  have "\<bar>deviation_products xs ys\<bar> \<le> sqrt ?D"
    using deviation_products_cauchy_schwarz [OF assms]
    by (metis real_sqrt_abs real_sqrt_le_iff)
  then show ?thesis
    using pos by (simp add: abs_divide)
qed

lemma sum_list_affine:
  "sum_list (map (\<lambda>x. c * x + d) xs) = c * sum_list xs + real (length xs) * (d::real)"
  by (induction xs) (simp_all add: algebra_simps)

lemma mean_affine:
  assumes "0 < length xs"
  shows "mean (map (\<lambda>x. c * x + d) xs) = c * mean xs + d"
  using assms by (simp add: mean_def sum_list_affine add_divide_distrib)

lemma deviation_products_affine:
  assumes "0 < length xs"
  shows "deviation_products xs (map (\<lambda>x. c * x + d) xs) = c * deviation_products xs xs"
    and "deviation_products (map (\<lambda>x. c * x + d) xs) (map (\<lambda>x. c * x + d) xs) =
           c\<^sup>2 * deviation_products xs xs"
proof -
  have "(\<Sum>k = 0..<length xs. (xs ! k - mean xs) * (map (\<lambda>x. c * x + d) xs ! k - (c * mean xs + d)))
        = (\<Sum>k = 0..<length xs. c * ((xs ! k - mean xs) * (xs ! k - mean xs)))"
    by (intro sum.cong) (simp_all add: algebra_simps)
  then show "deviation_products xs (map (\<lambda>x. c * x + d) xs) = c * deviation_products xs xs"
    using assms by (simp add: deviation_products_def mean_affine sum_distrib_left)
  have "(\<Sum>k = 0..<length xs. (map (\<lambda>x. c * x + d) xs ! k - (c * mean xs + d)) *
            (map (\<lambda>x. c * x + d) xs ! k - (c * mean xs + d)))
        = (\<Sum>k = 0..<length xs. c\<^sup>2 * ((xs ! k - mean xs) * (xs ! k - mean xs)))"
    by (intro sum.cong) (simp_all add: algebra_simps power2_eq_square)
  then show "deviation_products (map (\<lambda>x. c * x + d) xs) (map (\<lambda>x. c * x + d) xs) =
           c\<^sup>2 * deviation_products xs xs"
    using assms by (simp add: deviation_products_def mean_affine sum_distrib_left)
qed

lemma efficiency_linear:
  assumes "2 \<le> length xs" "deviation_products xs xs \<noteq> 0" "c \<noteq> 0"
  shows "calculateMarketEfficiency (map Fin xs) (map Fin (map (\<lambda>x. c * x + d) xs)) = Fin 1"
proof -
  let ?ys = "map (\<lambda>x. c * x + d) xs"
  let ?S = "deviation_products xs xs"
  have pos: "0 < length xs" using assms(1) by linarith
  have ys: "deviation_products ?ys ?ys \<noteq> 0"
    using assms by (simp add: deviation_products_affine(2) [OF pos])
  have "?S * (c\<^sup>2 * ?S) = (c * ?S)\<^sup>2"
    by (simp add: power2_eq_square)
  then have root: "sqrt (?S * (c\<^sup>2 * ?S)) = \<bar>c * ?S\<bar>"
    by (simp only: real_sqrt_abs)
  have "c * ?S \<noteq> 0" using assms by simp
  then have "\<bar>c * ?S / \<bar>c * ?S\<bar>\<bar> = 1"
    by (simp only: abs_divide abs_abs) simp
  then show ?thesis
    using efficiency_nonzero_variance [of ?ys xs, OF _ assms(1,2) ys]
    by (simp only: length_map deviation_products_affine [OF pos] root)
qed

lemma sqrt_16: "sqrt 16 = 4"
  using real_sqrt_abs [of 4] by simp

lemma efficiency_example_linear:
  "calculateMarketEfficiency [Fin 1, Fin 2, Fin 3] [Fin 2, Fin 4, Fin 6] = Fin 1"
  by (simp add: calculateMarketEfficiency_def reduce_sum_def efficiency_loop.simps
      index_num_def jsub_def Let_def sqrt_16)

lemma efficiency_example_mismatch:
  "calculateMarketEfficiency [Fin 1, Fin 2] [Fin 1, Fin 2, Fin 3] = Fin 0"
  by (simp add: calculateMarketEfficiency_def)

lemma efficiency_guard:
  "length prices1 \<noteq> length prices2 \<or> length prices1 < 2 \<Longrightarrow>
     calculateMarketEfficiency prices1 prices2 = Fin 0"
  by (auto simp add: calculateMarketEfficiency_def)

lemma efficiency_pearson:
  assumes "length ys = length xs" "2 \<le> length xs"
    and "population_stddev xs \<noteq> 0" "population_stddev ys \<noteq> 0"
  shows "calculateMarketEfficiency (map Fin xs) (map Fin ys) = Fin \<bar>pearson xs ys\<bar>"
    and "0 \<le> \<bar>pearson xs ys\<bar>" and "\<bar>pearson xs ys\<bar> \<le> 1"
proof -
  have pos: "0 < length xs" "0 < length ys" using assms(1,2) by linarith+
  have nz: "deviation_products xs xs \<noteq> 0" "deviation_products ys ys \<noteq> 0"
    using assms(3,4) stddev_zero_iff [OF pos(1)] stddev_zero_iff [OF pos(2)] by simp_all
  show "calculateMarketEfficiency (map Fin xs) (map Fin ys) = Fin \<bar>pearson xs ys\<bar>"
    by (simp only: efficiency_nonzero_variance [OF assms(1,2) nz]
        pearson_deviation_products [OF assms(1) pos(1)])
  show "0 \<le> \<bar>pearson xs ys\<bar>" by simp
  show "\<bar>pearson xs ys\<bar> \<le> 1"
    using correlation_bound [OF assms(1)]
    by (simp only: pearson_deviation_products [OF assms(1) pos(1)])
qed

text \<open>
  In exact arithmetic: \<open>calculateMarketEfficiency\<close> returns 0 whenever the two series
  differ in length or have fewer than 2 elements. For two series of finite numbers of the
  same length, at least 2, both of nonzero variance, the exact value of the expression it
  evaluates is the absolute value of the Pearson correlation coefficient, which lies
  between 0 and 1, and is 1 when one series is a linear function (of nonzero slope) of
  the other. This is the value before rounding, not a bound on what the function returns.
\<close>

lemma efficiency_exact_arithmetic:
  "(length prices1 \<noteq> length prices2 \<or> length prices1 < 2 \<longrightarrow>
      calculateMarketEfficiency prices1 prices2 = Fin 0)
   \<and> (length ys = length xs \<and> 2 \<le> length xs \<and>
        population_stddev xs \<noteq> 0 \<and> population_stddev ys \<noteq> 0 \<longrightarrow>
          calculateMarketEfficiency (map Fin xs) (map Fin ys) = Fin \<bar>pearson xs ys\<bar>
          \<and> 0 \<le> \<bar>pearson xs ys\<bar> \<and> \<bar>pearson xs ys\<bar> \<le> 1)
   \<and> (2 \<le> length xs \<and> population_stddev xs \<noteq> 0 \<and> c \<noteq> 0 \<longrightarrow>
        calculateMarketEfficiency (map Fin xs) (map Fin (map (\<lambda>x. c * x + d) xs)) = Fin 1)
   \<and> calculateMarketEfficiency [Fin 1, Fin 2, Fin 3] [Fin 2, Fin 4, Fin 6] = Fin 1
   \<and> calculateMarketEfficiency [Fin 1, Fin 2] [Fin 1, Fin 2, Fin 3] = Fin 0"
proof -
  have linear: "calculateMarketEfficiency (map Fin xs) (map Fin (map (\<lambda>x. c * x + d) xs)) = Fin 1"
    if "2 \<le> length xs" "population_stddev xs \<noteq> 0" "c \<noteq> 0"
  proof -
    have "0 < length xs" using that(1) by linarith
    then have "deviation_products xs xs \<noteq> 0"
      using that(2) stddev_zero_iff [of xs] by simp
    then show ?thesis
      using efficiency_linear [OF that(1) _ that(3)] by simp
  qed
  show ?thesis
    using efficiency_guard [of prices1 prices2] efficiency_pearson [of ys xs] linear
      efficiency_example_linear efficiency_example_mismatch
    by blast
qed

lemma efficiency_exact_arithmetic_example:
  "length [Fin 7] \<noteq> length ([] :: jsnum list) \<and> calculateMarketEfficiency [Fin 7] [] = Fin 0
   \<and> population_stddev [1, 2, 3] \<noteq> 0 \<and> population_stddev [1, 3, 2] \<noteq> 0
   \<and> calculateMarketEfficiency (map Fin [1, 2, 3]) (map Fin [1, 3, 2]) = Fin (1 / 2)
   \<and> calculateMarketEfficiency (map Fin [1, 2, 3]) (map Fin (map (\<lambda>x. (- 3) * x + 4) [1, 2, 3])) = Fin 1"
  using efficiency_exact_arithmetic [of "[Fin 7]" "[]" "[1, 3, 2]" "[1, 2, 3]" "- 3" 4]
  by (simp add: population_stddev_def pearson_def covariance_def mean_def)

text \<open>
  C1. The specification asks for 0 when a series is constant. The function divides the
  zero sum of deviation products by the square root of a zero product, so on the constant
  series 5, 5, 5 against 1, 2, 3 it returns NaN, which is outside the range from 0 to 1
  that its documentation promises.
\<close>

theorem efficiency_constant_series_nan:
  "calculateMarketEfficiency [Fin 5, Fin 5, Fin 5] [Fin 1, Fin 2, Fin 3] = NaN"
  by (simp add: calculateMarketEfficiency_def reduce_sum_def efficiency_loop.simps
      index_num_def jsub_def Let_def signed_inf_def)

theorem efficiency_constant_series_not_zero:
  "calculateMarketEfficiency [Fin 5, Fin 5, Fin 5] [Fin 1, Fin 2, Fin 3] \<noteq> Fin 0"
  using efficiency_constant_series_nan by simp

section \<open>Percent change and trend factor\<close>

text \<open>
  C5 (amended). With a base price of zero the percent-change computation raises nothing,
  but its value is not 0: it is \<open>Infinity\<close> for a positive price, \<open>-Infinity\<close> for a
  negative price and NaN for the price 0.
\<close>

theorem price_change_zero_base:
  "calculatePriceChange (Fin p) (Fin 0) = (if 0 < p then PInf else if p < 0 then NInf else NaN)"
  by (simp add: calculatePriceChange_def jsub_def signed_inf_def)

theorem price_change_zero_base_witness:
  "calculatePriceChange (Fin (- 3)) (Fin 0) = NInf"
  using price_change_zero_base [of "- 3"] by simp

text \<open>The claim as stated fails: the change of the price 4500 against the base 0 is not 0.\<close>

theorem price_change_zero_base_not_zero:
  "calculatePriceChange (Fin 4500) (Fin 0) \<noteq> Fin 0"
  by (simp add: calculatePriceChange_def jsub_def signed_inf_def)

text \<open>
  C2. The specification asks for a trend factor that grows towards today. The factor of
  the code is \<open>1 + i * 0.001\<close> with \<open>i\<close> the number of days before today: it is 1.029 on
  the oldest day and 1 today, so it falls as the day approaches today.
\<close>

theorem trend_factor_downward:
  "trendFactor 29 = Fin 1.029 \<and> trendFactor 0 = Fin 1 \<and> jless (trendFactor 0) (trendFactor 29)"
  by (simp add: trendFactor_def)

theorem trend_factor_downward_witness:
  "jgreater (trendFactor 29) (trendFactor 0)"
  using trend_factor_downward by (simp add: jgreater_def)

lemma trend_factor_older_larger:
  "i < j \<Longrightarrow> jless (trendFactor i) (trendFactor j)"
  by (simp add: trendFactor_def)

lemma price_change_finite:
  assumes "b \<noteq> 0"
  shows "calculatePriceChange (Fin p) (Fin b) = Fin (of_int \<lfloor>(p - b) / b * 100 * 10 + 1 / 2\<rfloor> / 10)"
  using assms by (simp add: calculatePriceChange_def jsub_def)

lemma price_change_sign_finite:
  assumes "0 < b"
  shows "jgreater (calculatePriceChange (Fin p) (Fin b)) (Fin 0) \<longleftrightarrow> 1.0005 * b \<le> p"
    and "jless (calculatePriceChange (Fin p) (Fin b)) (Fin 0) \<longleftrightarrow> p < 0.9995 * b"
    and "calculatePriceChange (Fin p) (Fin b) = Fin 0 \<longleftrightarrow> 0.9995 * b \<le> p \<and> p < 1.0005 * b"
proof -
  define x where "x = (p - b) / b * 100 * 10 + 1 / 2"
  define n where "n = \<lfloor>x\<rfloor>"
  have nz: "b \<noteq> 0" using assms by simp
  have change: "calculatePriceChange (Fin p) (Fin b) = Fin (of_int n / 10)"
    unfolding n_def x_def by (rule price_change_finite [OF nz])
  have x: "x = (p - b) * 1000 / b + 1 / 2"
    unfolding x_def by simp
  have up: "1 \<le> x \<longleftrightarrow> 1.0005 * b \<le> p"
    unfolding x using assms by (simp add: field_simps)
  have down: "x < 0 \<longleftrightarrow> p < 0.9995 * b"
    unfolding x using assms by (simp add: field_simps)
  have "0 < n \<longleftrightarrow> 1 \<le> n" by linarith
  also have "\<dots> \<longleftrightarrow> 1 \<le> x" unfolding n_def by (simp add: le_floor_iff)
  finally have pos: "0 < n \<longleftrightarrow> 1.0005 * b \<le> p" using up by simp
  have "n < 0 \<longleftrightarrow> x < 0" unfolding n_def by (simp add: floor_less_iff)
  then have neg: "n < 0 \<longleftrightarrow> p < 0.9995 * b" using down by simp
  show "jgreater (calculatePriceChange (Fin p) (Fin b)) (Fin 0) \<longleftrightarrow> 1.0005 * b \<le> p"
    using pos by (simp add: change jgreater_def)
  show "jless (calculatePriceChange (Fin p) (Fin b)) (Fin 0) \<longleftrightarrow> p < 0.9995 * b"
    using neg by (simp add: change)
  have "n = 0 \<longleftrightarrow> \<not> 0 < n \<and> \<not> n < 0" by linarith
  then show "calculatePriceChange (Fin p) (Fin b) = Fin 0 \<longleftrightarrow> 0.9995 * b \<le> p \<and> p < 1.0005 * b"
    using pos neg by (auto simp add: change)
qed

lemma price_change_sign:
  assumes "0 < b"
  shows "jgreater (calculatePriceChange price (Fin b)) (Fin 0) \<longleftrightarrow>
           jge price (jmul (Fin 1.0005) (Fin b))"
    and "jless (calculatePriceChange price (Fin b)) (Fin 0) \<longleftrightarrow>
           jless price (jmul (Fin 0.9995) (Fin b))"
    and "calculatePriceChange price (Fin b) = Fin 0 \<longleftrightarrow>
           jge price (jmul (Fin 0.9995) (Fin b)) \<and> jless price (jmul (Fin 1.0005) (Fin b))"
proof -
  show "jgreater (calculatePriceChange price (Fin b)) (Fin 0) \<longleftrightarrow>
          jge price (jmul (Fin 1.0005) (Fin b))"
  proof (cases price)
    case (Fin p)
    then show ?thesis
      using price_change_sign_finite(1) [OF assms, of p] by simp
  qed (use assms in \<open>simp_all add: calculatePriceChange_def jsub_def jgreater_def signed_inf_def\<close>)
  show "jless (calculatePriceChange price (Fin b)) (Fin 0) \<longleftrightarrow>
          jless price (jmul (Fin 0.9995) (Fin b))"
  proof (cases price)
    case (Fin p)
    then show ?thesis
      using price_change_sign_finite(2) [OF assms, of p] by simp
  qed (use assms in \<open>simp_all add: calculatePriceChange_def jsub_def signed_inf_def\<close>)
  show "calculatePriceChange price (Fin b) = Fin 0 \<longleftrightarrow>
          jge price (jmul (Fin 0.9995) (Fin b)) \<and> jless price (jmul (Fin 1.0005) (Fin b))"
  proof (cases price)
    case (Fin p)
    then show ?thesis
      using price_change_sign_finite(3) [OF assms, of p] by simp
  qed (use assms in \<open>simp_all add: calculatePriceChange_def jsub_def signed_inf_def\<close>)
qed

section \<open>The generators unfolded\<close>

lemma fluctuation_pair:
  "generatePriceFluctuation b v random k = (fst (generatePriceFluctuation b v random k), k + 2)"
  by (simp add: generatePriceFluctuation_def Let_def)

lemma fluctuation_case:
  "(case generatePriceFluctuation b v random k of (p, k') \<Rightarrow> f p k') =
     f (fst (generatePriceFluctuation b v random k)) (k + 2)"
  by (subst fluctuation_pair) simp

lemma generateMarketData_unfold:
  "generateMarketData now random k =
     ([\<lparr>city = NAIROBI, commodity = MAIZE,
         maizePrice = snapshot_price MAIZE NAIROBI random k,
         maizeChange = calculatePriceChange (snapshot_price MAIZE NAIROBI random k) (BASE_PRICES MAIZE NAIROBI),
         beansPrice = snapshot_price BEANS NAIROBI random (k + 4),
         beansChange = calculatePriceChange (snapshot_price BEANS NAIROBI random (k + 4)) (BASE_PRICES BEANS NAIROBI),
         lastUpdated = now\<rparr>,
       \<lparr>city = MOMBASA, commodity = BEANS,
         maizePrice = snapshot_price MAIZE MOMBASA random (k + 2),
         maizeChange = calculatePriceChange (snapshot_price MAIZE MOMBASA random (k + 2)) (BASE_PRICES MAIZE MOMBASA),
         beansPrice = snapshot_price BEANS MOMBASA random (k + 6),
         beansChange = calculatePriceChange (snapshot_price BEANS MOMBASA random (k + 6)) (BASE_PRICES BEANS MOMBASA),
         lastUpdated = now\<rparr>], k + 8)"
  unfolding generateMarketData_def Let_def fluctuation_case snapshot_price_def
  by (simp add: add.assoc del: add_2_eq_Suc add_2_eq_Suc')

lemma history_point_unfold:
  "history_point tz today random i k =
     (\<lparr>date = toISOString_date (setDate_back tz today i),
       nairobiMaize = history_price MAIZE NAIROBI i random k,
       nairobiBeans = history_price BEANS NAIROBI i random (k + 2),
       mombasaMaize = history_price MAIZE MOMBASA i random (k + 4),
       mombasaBeans = history_price BEANS MOMBASA i random (k + 6)\<rparr>, k + 8)"
  unfolding history_point_def Let_def fluctuation_case history_price_def
  by (simp add: add.assoc del: add_2_eq_Suc add_2_eq_Suc')

lemma history_point_case:
  "(case history_point tz today random i k of (point, k') \<Rightarrow> f point k') =
     f (fst (history_point tz today random i k)) (k + 8)"
  by (simp add: history_point_unfold)

lemma history_loop_unfold:
  "history_loop tz today random i k acc =
     (acc @ map (\<lambda>j. fst (history_point tz today random (i - int j) (k + 8 * j))) [0..<nat (i + 1)],
      k + 8 * nat (i + 1))"
proof (induction tz today random i k acc rule: history_loop.induct)
  case (1 tz today random i k acc)
  show ?case
  proof (cases "0 \<le> i")
    case True
    have step: "history_loop tz today random i k acc =
        history_loop tz today random (i - 1) (k + 8) (acc @ [fst (history_point tz today random i k)])"
      using True by (subst history_loop.simps) (simp only: history_point_case if_True)
    have n: "nat (i + 1) = Suc (nat i)" using True by simp
    have shift: "map (\<lambda>j. fst (history_point tz today random (i - int j) (k + 8 * j))) [0..<Suc (nat i)]
        = fst (history_point tz today random i k)
          # map (\<lambda>j. fst (history_point tz today random (i - 1 - int j) (k + 8 + 8 * j))) [0..<nat i]"
      by (simp add: upt_conv_Cons map_Suc_upt [symmetric] algebra_simps del: upt_Suc)
    have hp: "(fst (history_point tz today random i k), k + 8) = history_point tz today random i k"
      by (simp add: history_point_unfold)
    show ?thesis
      using 1 [OF True hp]
      by (simp only: step n shift append_Cons append_Nil append_assoc add.assoc) simp
  next
    case False
    then show ?thesis
      by (subst history_loop.simps) simp
  qed
qed

lemma generateHistoricalData_unfold:
  "fst (generateHistoricalData tz today random k) =
     map (\<lambda>j. fst (history_point tz today random (29 - int j) (k + 8 * j))) [0..<30]"
  by (simp add: generateHistoricalData_def history_loop_unfold)

lemma history_length: "length (fst (generateHistoricalData tz today random k)) = 30"
  by (simp add: generateHistoricalData_unfold)

lemma fluctuation_finite:
  assumes "0 < random k" "random k < 1"
  shows "fst (generatePriceFluctuation (Fin b) (Fin v) random k) =
           Fin (max (b + normal_sample random k * v * b) (b * 0.5))"
proof -
  have "ln (random k) \<le> 0" using assms by simp
  then have "\<not> - 2 * ln (random k) < 0" by simp
  then show ?thesis
    using assms
    by (simp add: generatePriceFluctuation_def Let_def Math_PI_def normal_sample_def)
qed

section \<open>The price floor\<close>

lemma base_price_cases:
  "BASE_PRICES c t = Fin 4500 \<or> BASE_PRICES c t = Fin 4200 \<or>
   BASE_PRICES c t = Fin 8500 \<or> BASE_PRICES c t = Fin 8200"
  by (cases c; cases t) simp_all

lemma base_price_positive: "\<exists>b. BASE_PRICES c t = Fin b \<and> 0 < b"
  by (cases c; cases t) simp_all

lemma volatility_cases: "VOLATILITY c = Fin 0.15 \<or> VOLATILITY c = Fin 0.20"
  by (cases c) simp_all

lemma round_at_least:
  assumes "real_of_int h \<le> y"
  shows "real_of_int h \<le> of_int \<lfloor>y + 1 / 2\<rfloor>"
proof -
  have "h \<le> \<lfloor>y + 1 / 2\<rfloor>"
    using assms by (simp add: le_floor_iff)
  then show ?thesis by simp
qed

lemma snapshot_price_finite:
  assumes "0 < random k" "random k < 1" "BASE_PRICES c t = Fin b" "VOLATILITY c = Fin v"
  shows "snapshot_price c t random k =
           Fin (of_int \<lfloor>max (b + normal_sample random k * v * b) (b * 0.5) + 1 / 2\<rfloor>)"
  using assms by (simp add: snapshot_price_def fluctuation_finite)

lemma snapshot_floor:
  assumes "0 < random k" "random k < 1"
  shows "jge (snapshot_price c t random k) (jmul (Fin 0.5) (BASE_PRICES c t))"
proof -
  obtain v where v: "VOLATILITY c = Fin v"
    using volatility_cases [of c] by auto
  have bound: "jge (snapshot_price c t random k) (jmul (Fin 0.5) (Fin b))"
    if b: "BASE_PRICES c t = Fin b" and h: "b * 0.5 = real_of_int h" for b h
  proof -
    have "real_of_int h \<le> max (b + normal_sample random k * v * b) (b * 0.5)"
      using h by simp
    then have "b * 0.5 \<le> of_int \<lfloor>max (b + normal_sample random k * v * b) (b * 0.5) + 1 / 2\<rfloor>"
      unfolding h by (rule round_at_least)
    then show ?thesis
      using snapshot_price_finite [of random k c t b v] assms b v by simp
  qed
  show ?thesis
    using base_price_cases [of c t] bound [of 4500 2250] bound [of 4200 2100]
      bound [of 8500 4250] bound [of 8200 4100]
    by auto
qed

lemma shaped_base_finite:
  assumes "BASE_PRICES c t = Fin b"
  shows "shaped_base c t i =
           Fin (b * (1 + of_int i * 0.001) * (1 + sin (of_int i / 30 * pi * 2) * 0.05))"
  using assms by (simp add: shaped_base_def trendFactor_def seasonalFactor_def Math_PI_def)

lemma history_floor:
  assumes "0 < random k" "random k < 1"
  shows "jge (history_price c t i random k) (Math_round (jmul (shaped_base c t i) (Fin 0.5)))"
proof -
  obtain v where v: "VOLATILITY c = Fin v"
    using volatility_cases [of c] by auto
  obtain b where b: "BASE_PRICES c t = Fin b"
    using base_price_cases [of c t] by auto
  obtain s where s: "shaped_base c t i = Fin s"
    using shaped_base_finite [OF b] by auto
  have "\<lfloor>s * 0.5 + 1 / 2\<rfloor> \<le> \<lfloor>max (s + normal_sample random k * (v * 0.5) * s) (s * 0.5) + 1 / 2\<rfloor>"
    by (intro floor_mono) simp
  then show ?thesis
    using assms by (simp add: history_price_def s v fluctuation_finite)
qed

text \<open>
  The trend factor is at least 1 and the seasonal factor at least 0.95, so every price of
  the history is at least the rounded 47.5 percent of the base price of the table.
\<close>

lemma shaping_at_least:
  assumes "0 \<le> i" "0 < b"
  shows "19 / 20 * b \<le> b * (1 + of_int i * 0.001) * (1 + sin (of_int i / 30 * pi * 2) * 0.05)"
proof -
  define q where "q = sin (real_of_int i / 30 * pi * 2)"
  define r where "r = real_of_int i"
  have r: "0 \<le> r" using assms(1) by (simp add: r_def)
  have "- 1 \<le> q" unfolding q_def by (rule sin_ge_minus_one)
  then have seasonal: "19 / 20 \<le> 1 + q * (1 / 20)" by linarith
  have trend: "1 \<le> 1 + r * (1 / 1000)" using r by simp
  have "19 / 20 * 1 \<le> (1 + q * (1 / 20)) * (1 + r * (1 / 1000))"
    using seasonal trend by (intro mult_mono) simp_all
  then have "b * (19 / 20) \<le> b * ((1 + q * (1 / 20)) * (1 + r * (1 / 1000)))"
    using assms(2) by (intro mult_left_mono) simp_all
  then have "19 / 20 * b \<le> b * (1 + r * (1 / 1000)) * (1 + q * (1 / 20))"
    by (simp add: mult.commute mult.left_commute)
  then show ?thesis
    unfolding q_def r_def by simp
qed

lemma history_floor_uniform:
  assumes "0 < random k" "random k < 1" "0 \<le> i"
  shows "jge (history_price c t i random k) (Math_round (jmul (Fin 0.475) (BASE_PRICES c t)))"
proof -
  obtain v where v: "VOLATILITY c = Fin v"
    using volatility_cases [of c] by auto
  obtain b where b: "BASE_PRICES c t = Fin b" "0 < b"
    using base_price_positive by blast
  define s where "s = b * (1 + of_int i * 0.001) * (1 + sin (of_int i / 30 * pi * 2) * 0.05)"
  define y where "y = max (s + normal_sample random k * (v * 0.5) * s) (s * 0.5)"
  have s: "shaped_base c t i = Fin s"
    unfolding s_def by (rule shaped_base_finite [OF b(1)])
  have "19 / 20 * b \<le> s"
    unfolding s_def by (rule shaping_at_least [OF assms(3) b(2)])
  then have "19 / 40 * b \<le> s / 2"
    by linarith
  also have "s / 2 \<le> y"
    unfolding y_def by simp
  finally have "19 / 40 * b + 1 / 2 \<le> y + 1 / 2"
    by linarith
  then have "\<lfloor>19 / 40 * b + 1 / 2\<rfloor> \<le> \<lfloor>y + 1 / 2\<rfloor>"
    by (rule floor_mono)
  moreover have "history_price c t i random k = Fin (of_int \<lfloor>y + 1 / 2\<rfloor>)"
    using assms(1,2) unfolding y_def by (simp add: history_price_def s v fluctuation_finite)
  ultimately show ?thesis
    by (simp add: b(1))
qed

section \<open>Draws that reach the floor\<close>

lemma low_draws_range: "0 < low_draws k \<and> low_draws k < 1"
  by (simp add: low_draws_def)

lemma ln_2_lower: "1 / 2 \<le> ln (2::real)"
proof -
  have "ln (1 / 2 :: real) \<le> 1 / 2 - 1"
    by (rule ln_le_minus_one) simp
  moreover have "ln (1 / 2 :: real) = - ln 2"
    by (simp add: ln_div)
  ultimately show ?thesis by simp
qed

lemma low_draws_sample:
  assumes "even k"
  shows "normal_sample low_draws k \<le> - 7"
proof -
  have "ln (1 / 2 ^ 50 :: real) = ln (inverse (2 ^ 50))"
    by (simp only: inverse_eq_divide)
  also have "\<dots> = - (real 50 * ln 2)"
    by (simp only: ln_inverse ln_realpow)
  finally have "ln (1 / 2 ^ 50 :: real) = - (50 * ln 2)"
    by simp
  then have "- 2 * ln (1 / 2 ^ 50 :: real) = 100 * ln 2"
    by simp
  moreover have "(7::real)\<^sup>2 \<le> 100 * ln 2"
    using ln_2_lower by (simp add: power2_eq_square)
  ultimately have "7 \<le> sqrt (- 2 * ln (1 / 2 ^ 50 :: real))"
    by (simp only: real_le_rsqrt)
  moreover have "cos (2 * pi * (1 / 2)) = - 1"
    by simp
  ultimately show ?thesis
    using assms by (simp add: normal_sample_def low_draws_def)
qed

lemma low_draws_hit_floor:
  assumes "even k" "0 \<le> b" "3 / 40 \<le> v"
  shows "fst (generatePriceFluctuation (Fin b) (Fin v) low_draws k) = Fin (b * 0.5)"
proof -
  have "normal_sample low_draws k * v \<le> - 7 * v"
    using low_draws_sample [OF assms(1)] assms(3) by (intro mult_right_mono) simp_all
  then have "normal_sample low_draws k * v \<le> - (1 / 2)"
    using assms(3) by linarith
  then have "(normal_sample low_draws k * v) * b \<le> - (1 / 2) * b"
    using assms(2) by (intro mult_right_mono)
  then have "b + normal_sample low_draws k * v * b \<le> b * 0.5"
    by simp
  then show ?thesis
    using low_draws_range [of k] by (simp add: fluctuation_finite max_def)
qed

lemma sin_day_20: "sin (20 / 30 * pi * 2) = - (sqrt 3 / 2)"
proof -
  have "20 / 30 * pi * 2 = pi / 3 + pi" by simp
  then show ?thesis
    by (simp only: sin_periodic_pi sin_60)
qed

lemma sqrt_3_bounds: "1732 / 1000 < sqrt 3" "sqrt 3 < 17321 / 10000"
proof -
  show "1732 / 1000 < sqrt 3"
    by (rule real_less_rsqrt) (simp add: power2_eq_square)
  show "sqrt 3 < 17321 / 10000"
    by (rule real_less_lsqrt) (simp_all add: power2_eq_square)
qed

lemma history_day_20_price:
  "nairobiMaize (fst (generateHistoricalData tz today low_draws 0) ! 9) = Fin 2196"
proof -
  define s :: real where "s = 4500 * (1 + 20 * 0.001) * (1 + sin (20 / 30 * pi * 2) * 0.05)"
  have shaped: "shaped_base MAIZE NAIROBI 20 = Fin s"
    using shaped_base_finite [of MAIZE NAIROBI 4500 20] by (simp add: s_def)
  have val: "s = 4590 - (459 / 4) * sqrt 3"
    unfolding s_def sin_day_20 by (simp add: algebra_simps)
  have pos: "0 \<le> s"
    using sqrt_3_bounds val by linarith
  have half: "s * 0.5 = 2295 - (459 / 8) * sqrt 3"
    unfolding val by simp
  have lower: "real_of_int 2196 \<le> s * 0.5 + 1 / 2"
    using sqrt_3_bounds(2) unfolding half by simp
  have upper: "s * 0.5 + 1 / 2 < real_of_int 2196 + 1"
    using sqrt_3_bounds(1) unfolding half by simp
  from lower upper have round: "\<lfloor>s * 0.5 + 1 / 2\<rfloor> = 2196"
    by (rule floor_unique)
  have "fst (generateHistoricalData tz today low_draws 0) ! 9 =
          fst (history_point tz today low_draws 20 72)"
    by (simp add: generateHistoricalData_unfold)
  then have "nairobiMaize (fst (generateHistoricalData tz today low_draws 0) ! 9) =
          history_price MAIZE NAIROBI 20 low_draws 72"
    by (simp add: history_point_unfold)
  also have "\<dots> = Math_round (Fin (s * 0.5))"
    unfolding history_price_def shaped
    using low_draws_hit_floor [of 72 s "0.15 * 0.5"] pos by simp
  also have "\<dots> = Fin 2196"
    using round by simp
  finally show ?thesis .
qed


section \<open>The floor invariant\<close>

text \<open>
  C3 (amended). For draws strictly between 0 and 1, every price of the snapshot generator
  is at least half of the base price of its commodity and city, and every price of the
  history generator is at least the rounded half of the base price as shaped for its
  day by the trend and the seasonal factor (the point at position \<open>j\<close> is the day
  \<open>29 - j\<close> before today).
\<close>

theorem floor_invariant:
  assumes "\<forall>k. 0 < random k \<and> random k < 1"
  shows "(\<forall>m \<in> set (fst (generateMarketData now random k)).
            jge (maizePrice m) (jmul (Fin 0.5) (BASE_PRICES MAIZE (city m))) \<and>
            jge (beansPrice m) (jmul (Fin 0.5) (BASE_PRICES BEANS (city m))))
       \<and> (\<forall>j<30.
            jge (nairobiMaize (fst (generateHistoricalData tz today random k) ! j))
                (Math_round (jmul (shaped_base MAIZE NAIROBI (29 - int j)) (Fin 0.5))) \<and>
            jge (nairobiBeans (fst (generateHistoricalData tz today random k) ! j))
                (Math_round (jmul (shaped_base BEANS NAIROBI (29 - int j)) (Fin 0.5))) \<and>
            jge (mombasaMaize (fst (generateHistoricalData tz today random k) ! j))
                (Math_round (jmul (shaped_base MAIZE MOMBASA (29 - int j)) (Fin 0.5))) \<and>
            jge (mombasaBeans (fst (generateHistoricalData tz today random k) ! j))
                (Math_round (jmul (shaped_base BEANS MOMBASA (29 - int j)) (Fin 0.5))))"
proof (intro conjI ballI allI impI)
  fix m assume m: "m \<in> set (fst (generateMarketData now random k))"
  have draws: "\<And>n. 0 < random n" "\<And>n. random n < 1" using assms by simp_all
  show "jge (maizePrice m) (jmul (Fin 0.5) (BASE_PRICES MAIZE (city m)))"
    using m snapshot_floor [of random k MAIZE NAIROBI] snapshot_floor [of random "k + 2" MAIZE MOMBASA] draws
    by (auto simp add: generateMarketData_unfold)
  show "jge (beansPrice m) (jmul (Fin 0.5) (BASE_PRICES BEANS (city m)))"
    using m snapshot_floor [of random "k + 4" BEANS NAIROBI] snapshot_floor [of random "k + 6" BEANS MOMBASA] draws
    by (auto simp add: generateMarketData_unfold)
next
  fix j :: nat assume j: "j < 30"
  have draws: "\<And>n. 0 < random n" "\<And>n. random n < 1" using assms by simp_all
  have point: "fst (generateHistoricalData tz today random k) ! j =
      fst (history_point tz today random (29 - int j) (k + 8 * j))"
    using j by (simp add: generateHistoricalData_unfold)
  show "jge (nairobiMaize (fst (generateHistoricalData tz today random k) ! j))
          (Math_round (jmul (shaped_base MAIZE NAIROBI (29 - int j)) (Fin 0.5)))"
    unfolding point using history_floor draws by (simp add: history_point_unfold)
  show "jge (nairobiBeans (fst (generateHistoricalData tz today random k) ! j))
          (Math_round (jmul (shaped_base BEANS NAIROBI (29 - int j)) (Fin 0.5)))"
    unfolding point using history_floor draws by (simp add: history_point_unfold)
  show "jge (mombasaMaize (fst (generateHistoricalData tz today random k) ! j))
          (Math_round (jmul (shaped_base MAIZE MOMBASA (29 - int j)) (Fin 0.5)))"
    unfolding point using history_floor draws by (simp add: history_point_unfold)
  show "jge (mombasaBeans (fst (generateHistoricalData tz today random k) ! j))
          (Math_round (jmul (shaped_base BEANS MOMBASA (29 - int j)) (Fin 0.5)))"
    unfolding point using history_floor draws by (simp add: history_point_unfold)
qed

theorem floor_invariant_witness:
  "(\<forall>k. 0 < low_draws k \<and> low_draws k < 1)
   \<and> jge (maizePrice (fst (generateMarketData 0 low_draws 0) ! 0))
         (jmul (Fin 0.5) (BASE_PRICES MAIZE NAIROBI))
   \<and> jge (nairobiMaize (fst (generateHistoricalData (fixed_zone 0) 0 low_draws 0) ! 9))
         (Math_round (jmul (shaped_base MAIZE NAIROBI 20) (Fin 0.5)))"
proof -
  have draws: "\<forall>k. 0 < low_draws k \<and> low_draws k < 1"
    using low_draws_range by simp
  have first: "fst (generateMarketData 0 low_draws 0) ! 0 \<in> set (fst (generateMarketData 0 low_draws 0))"
    by (simp add: generateMarketData_unfold)
  have city: "city (fst (generateMarketData 0 low_draws 0) ! 0) = NAIROBI"
    by (simp add: generateMarketData_unfold)
  have snapshot: "jge (maizePrice (fst (generateMarketData 0 low_draws 0) ! 0))
         (jmul (Fin 0.5) (BASE_PRICES MAIZE (city (fst (generateMarketData 0 low_draws 0) ! 0))))"
    using floor_invariant [OF draws, of 0 0 "fixed_zone 0" 0] first by blast
  have "(9::nat) < 30" by simp
  then have history: "jge (nairobiMaize (fst (generateHistoricalData (fixed_zone 0) 0 low_draws 0) ! 9))
         (Math_round (jmul (shaped_base MAIZE NAIROBI (29 - int 9)) (Fin 0.5)))"
    using floor_invariant [OF draws, of 0 0 "fixed_zone 0" 0] by blast
  show ?thesis
    using snapshot history draws by (simp add: city)
qed

text \<open>
  The claim as stated fails for the history generator: on the day 20 before today the
  shaped base price of maize in Nairobi is below the base price of the table, and with a
  strongly negative sample the price is 2196, below the half 2250 of the base price.
\<close>

theorem floor_invariant_history_counterexample:
  "\<not> jge (nairobiMaize (fst (generateHistoricalData (fixed_zone 0) 0 low_draws 0) ! 9))
         (jmul (Fin 0.5) (BASE_PRICES MAIZE NAIROBI))"
  by (simp add: history_day_20_price)

section \<open>Sign of the percent change\<close>

lemma change_sign_one:
  "(jgreater (calculatePriceChange price (BASE_PRICES c t)) (Fin 0) \<longleftrightarrow>
      jge price (jmul (Fin 1.0005) (BASE_PRICES c t)))
   \<and> (jless (calculatePriceChange price (BASE_PRICES c t)) (Fin 0) \<longleftrightarrow>
      jless price (jmul (Fin 0.9995) (BASE_PRICES c t)))
   \<and> (calculatePriceChange price (BASE_PRICES c t) = Fin 0 \<longleftrightarrow>
      jge price (jmul (Fin 0.9995) (BASE_PRICES c t)) \<and>
      jless price (jmul (Fin 1.0005) (BASE_PRICES c t)))"
proof -
  obtain b where b: "BASE_PRICES c t = Fin b" "0 < b"
    using base_price_positive by blast
  show ?thesis
    unfolding b(1) using price_change_sign [OF b(2), of price] by blast
qed

text \<open>
  C4 (amended). The change is rounded to one decimal place, so its sign follows the price
  only outside a band of 0.05 percent around the base price. For every record of the
  snapshot generator and each of its two commodities: the change is positive exactly
  when the price is at least 1.0005 times the base price, negative exactly when the
  price is below 0.9995 times the base price, and 0 exactly when the price lies between
  the two.
\<close>

theorem change_sign_consistency:
  "\<forall>m \<in> set (fst (generateMarketData now random k)).
     (jgreater (maizeChange m) (Fin 0) \<longleftrightarrow>
        jge (maizePrice m) (jmul (Fin 1.0005) (BASE_PRICES MAIZE (city m))))
     \<and> (jless (maizeChange m) (Fin 0) \<longleftrightarrow>
        jless (maizePrice m) (jmul (Fin 0.9995) (BASE_PRICES MAIZE (city m))))
     \<and> (maizeChange m = Fin 0 \<longleftrightarrow>
        jge (maizePrice m) (jmul (Fin 0.9995) (BASE_PRICES MAIZE (city m))) \<and>
        jless (maizePrice m) (jmul (Fin 1.0005) (BASE_PRICES MAIZE (city m))))
     \<and> (jgreater (beansChange m) (Fin 0) \<longleftrightarrow>
        jge (beansPrice m) (jmul (Fin 1.0005) (BASE_PRICES BEANS (city m))))
     \<and> (jless (beansChange m) (Fin 0) \<longleftrightarrow>
        jless (beansPrice m) (jmul (Fin 0.9995) (BASE_PRICES BEANS (city m))))
     \<and> (beansChange m = Fin 0 \<longleftrightarrow>
        jge (beansPrice m) (jmul (Fin 0.9995) (BASE_PRICES BEANS (city m))) \<and>
        jless (beansPrice m) (jmul (Fin 1.0005) (BASE_PRICES BEANS (city m))))"
proof
  fix m assume "m \<in> set (fst (generateMarketData now random k))"
  then consider
    "m = hd (fst (generateMarketData now random k))" | "m = fst (generateMarketData now random k) ! 1"
    by (auto simp add: generateMarketData_unfold)
  then show "(jgreater (maizeChange m) (Fin 0) \<longleftrightarrow>
        jge (maizePrice m) (jmul (Fin 1.0005) (BASE_PRICES MAIZE (city m))))
     \<and> (jless (maizeChange m) (Fin 0) \<longleftrightarrow>
        jless (maizePrice m) (jmul (Fin 0.9995) (BASE_PRICES MAIZE (city m))))
     \<and> (maizeChange m = Fin 0 \<longleftrightarrow>
        jge (maizePrice m) (jmul (Fin 0.9995) (BASE_PRICES MAIZE (city m))) \<and>
        jless (maizePrice m) (jmul (Fin 1.0005) (BASE_PRICES MAIZE (city m))))
     \<and> (jgreater (beansChange m) (Fin 0) \<longleftrightarrow>
        jge (beansPrice m) (jmul (Fin 1.0005) (BASE_PRICES BEANS (city m))))
     \<and> (jless (beansChange m) (Fin 0) \<longleftrightarrow>
        jless (beansPrice m) (jmul (Fin 0.9995) (BASE_PRICES BEANS (city m))))
     \<and> (beansChange m = Fin 0 \<longleftrightarrow>
        jge (beansPrice m) (jmul (Fin 0.9995) (BASE_PRICES BEANS (city m))) \<and>
        jless (beansPrice m) (jmul (Fin 1.0005) (BASE_PRICES BEANS (city m))))"
  proof cases
    case 1
    show ?thesis
      unfolding 1 generateMarketData_unfold
      using change_sign_one [of "snapshot_price MAIZE NAIROBI random k" MAIZE NAIROBI]
        change_sign_one [of "snapshot_price BEANS NAIROBI random (k + 4)" BEANS NAIROBI]
      by (simp del: BASE_PRICES.simps)
  next
    case 2
    show ?thesis
      unfolding 2 generateMarketData_unfold
      using change_sign_one [of "snapshot_price MAIZE MOMBASA random (k + 2)" MAIZE MOMBASA]
        change_sign_one [of "snapshot_price BEANS MOMBASA random (k + 6)" BEANS MOMBASA]
      by (simp del: BASE_PRICES.simps)
  qed
qed

lemma low_draws_snapshot:
  "maizePrice (fst (generateMarketData now low_draws 0) ! 0) = Fin 2250"
  "maizeChange (fst (generateMarketData now low_draws 0) ! 0) = Fin (- 50)"
proof -
  have "snapshot_price MAIZE NAIROBI low_draws 0 = Math_round (Fin (4500 * 0.5))"
    unfolding snapshot_price_def
    using low_draws_hit_floor [of 0 4500 "0.15"] by simp
  then have price: "snapshot_price MAIZE NAIROBI low_draws 0 = Fin 2250"
    by simp
  show "maizePrice (fst (generateMarketData now low_draws 0) ! 0) = Fin 2250"
    by (simp add: generateMarketData_unfold price)
  show "maizeChange (fst (generateMarketData now low_draws 0) ! 0) = Fin (- 50)"
    by (simp add: generateMarketData_unfold price price_change_finite)
qed

theorem change_sign_consistency_witness:
  "jless (maizeChange (fst (generateMarketData 0 low_draws 0) ! 0)) (Fin 0)
   \<and> jless (maizePrice (fst (generateMarketData 0 low_draws 0) ! 0))
         (jmul (Fin 0.9995) (BASE_PRICES MAIZE NAIROBI))"
proof -
  have first: "fst (generateMarketData 0 low_draws 0) ! 0 \<in> set (fst (generateMarketData 0 low_draws 0))"
    by (simp add: generateMarketData_unfold)
  have city: "city (fst (generateMarketData 0 low_draws 0) ! 0) = NAIROBI"
    by (simp add: generateMarketData_unfold)
  have negative: "jless (maizeChange (fst (generateMarketData 0 low_draws 0) ! 0)) (Fin 0)"
    by (simp add: low_draws_snapshot(2))
  have "jless (maizeChange (fst (generateMarketData 0 low_draws 0) ! 0)) (Fin 0) \<longleftrightarrow>
        jless (maizePrice (fst (generateMarketData 0 low_draws 0) ! 0))
          (jmul (Fin 0.9995) (BASE_PRICES MAIZE (city (fst (generateMarketData 0 low_draws 0) ! 0))))"
    using change_sign_consistency [of 0 low_draws 0] first by blast
  then show ?thesis
    using negative unfolding city by blast
qed

lemma near_draws_sample:
  "- (2 / 1000) \<le> normal_sample near_draws 0" "normal_sample near_draws 0 < - (1 / 1000)"
proof -
  define y :: real where "y = - 2 * ln (999999 / 1000000)"
  have "ln (999999 / 1000000 :: real) \<le> 999999 / 1000000 - 1"
    by (rule ln_le_minus_one) simp
  then have lower: "(1 / 1000)\<^sup>2 < y"
    unfolding y_def by (simp add: power2_eq_square)
  have "- (1 / 1000000) - 2 * (1 / 1000000)\<^sup>2 \<le> ln (1 - 1 / 1000000 :: real)"
    by (rule ln_one_minus_pos_lower_bound) simp_all
  then have upper: "y \<le> (2 / 1000)\<^sup>2"
    unfolding y_def by (simp add: power2_eq_square)
  have root: "1 / 1000 < sqrt y" "sqrt y \<le> 2 / 1000"
  proof -
    show "1 / 1000 < sqrt y" using lower by (rule real_less_rsqrt)
    show "sqrt y \<le> 2 / 1000" using upper by (intro real_le_lsqrt) simp_all
  qed
  have "normal_sample near_draws 0 = sqrt y * cos (2 * pi * (1 / 2))"
    by (simp add: normal_sample_def near_draws_def y_def)
  then have "normal_sample near_draws 0 = - sqrt y"
    by simp
  then show "- (2 / 1000) \<le> normal_sample near_draws 0" "normal_sample near_draws 0 < - (1 / 1000)"
    using root by simp_all
qed

lemma near_draws_snapshot:
  "maizePrice (fst (generateMarketData now near_draws 0) ! 0) = Fin 4499"
  "maizeChange (fst (generateMarketData now near_draws 0) ! 0) = Fin 0"
proof -
  define z where "z = normal_sample near_draws 0"
  have z: "- (2 / 1000) \<le> z" "z < - (1 / 1000)"
    unfolding z_def by (rule near_draws_sample)+
  have draw: "0 < near_draws 0" "near_draws 0 < 1"
    by (simp_all add: near_draws_def)
  have "fst (generatePriceFluctuation (Fin 4500) (Fin 0.15) near_draws 0) =
          Fin (max (4500 + z * 0.15 * 4500) (4500 * 0.5))"
    unfolding z_def using draw by (rule fluctuation_finite [of near_draws 0 4500 "0.15"])
  also have "max (4500 + z * 0.15 * 4500) (4500 * 0.5) = 4500 + 675 * z"
    using z by (simp add: max_def)
  finally have raw: "fst (generatePriceFluctuation (Fin 4500) (Fin 0.15) near_draws 0) =
          Fin (4500 + 675 * z)" .
  have "real_of_int 4499 \<le> 4500 + 675 * z + 1 / 2" "4500 + 675 * z + 1 / 2 < real_of_int 4499 + 1"
    using z by simp_all
  then have rounded: "\<lfloor>4500 + 675 * z + 1 / 2\<rfloor> = 4499"
    by (rule floor_unique)
  have "snapshot_price MAIZE NAIROBI near_draws 0 = Math_round (Fin (4500 + 675 * z))"
    unfolding snapshot_price_def BASE_PRICES.simps VOLATILITY.simps raw ..
  also have "\<dots> = Fin 4499"
    unfolding Math_round.simps rounded by simp
  finally have price: "snapshot_price MAIZE NAIROBI near_draws 0 = Fin 4499" .
  show "maizePrice (fst (generateMarketData now near_draws 0) ! 0) = Fin 4499"
    by (simp add: generateMarketData_unfold price)
  have "\<lfloor>(4499 - 4500) / 4500 * 100 * 10 + 1 / 2 :: real\<rfloor> = 0"
    by (rule floor_unique) simp_all
  then show "maizeChange (fst (generateMarketData now near_draws 0) ! 0) = Fin 0"
    by (simp add: generateMarketData_unfold price price_change_finite)
qed

text \<open>
  The claim as stated fails: with a very small negative sample the price of maize in
  Nairobi is 4499, below the base price 4500, and the change rounds to 0.
\<close>

theorem change_sign_counterexample:
  "\<not> (jless (maizeChange (fst (generateMarketData 0 near_draws 0) ! 0)) (Fin 0) \<longleftrightarrow>
       jless (maizePrice (fst (generateMarketData 0 near_draws 0) ! 0)) (BASE_PRICES MAIZE NAIROBI))"
  by (simp add: near_draws_snapshot)

section \<open>The dates of the history\<close>

lemma history_date:
  assumes "j < 30"
  shows "date (fst (generateHistoricalData tz today random k) ! j) =
           toISOString_date (setDate_back tz today (29 - int j))"
  using assms by (simp add: generateHistoricalData_unfold history_point_unfold)

lemma setDate_back_fixed_zone:
  "setDate_back (fixed_zone off) today i = today - i * msPerDay"
  by (simp add: setDate_back_def UTC_def LocalTime_def fixed_zone_def)

lemma div_shift:
  fixes d t i :: int
  assumes "d \<noteq> 0"
  shows "(t - i * d) div d = t div d - i"
  using div_mult_self1 [OF assms, of t "- i"] by simp

lemma Day_shift: "Day (t - i * msPerDay) = Day t - i"
  unfolding Day_def by (rule div_shift) (simp add: msPerDay_def)

lemma Day_of_day_start: "Day (n * msPerDay) = n"
  by (simp add: Day_def msPerDay_def)

lemma history_dates_fixed_zone:
  assumes "j < 30"
  shows "date (fst (generateHistoricalData (fixed_zone off) today random k) ! j) =
           toISOString_date ((Day today - 29 + int j) * msPerDay)"
proof -
  have "Day ((Day today - 29 + int j) * msPerDay) = Day (today - (29 - int j) * msPerDay)"
    by (simp only: Day_shift Day_of_day_start)
  then show ?thesis
    using assms by (simp only: history_date setDate_back_fixed_zone toISOString_date_def)
qed

lemma new_york_set_back_1: "setDate_back new_york_spring_2026 1773099000000 1 = 1773012600000"
  by (simp add: setDate_back_def UTC_def LocalTime_def new_york_spring_2026_def msPerHour_def
      msPerDay_def)

lemma new_york_set_back_2: "setDate_back new_york_spring_2026 1773099000000 2 = 1772929800000"
  by (simp add: setDate_back_def UTC_def LocalTime_def new_york_spring_2026_def msPerHour_def
      msPerDay_def)

lemma day_20520: "Day 1773012600000 = 20520" "Day 1772929800000 = 20520"
  by (simp_all add: Day_def msPerDay_def)

lemma civil_20520: "civil_from_days 20520 = (2026, 3, 8)"
  by code_simp

lemma iso_2026_03_08:
  assumes "Day t = 20520"
  shows "toISOString_date t = ''2026-03-08''"
  by (simp add: toISOString_date_def assms civil_20520 four_digits_def two_digits_def digit_def)


text \<open>
  C9. The specification asks for 30 points with strictly increasing dates, one for each
  calendar day. The generator steps back by days in local time and prints the date in
  UTC. Called in New York on 2026-03-09 at 19:30 local time (23:30 UTC), the day after
  daylight-saving time began, it returns 30 points of which the two at the positions 27
  and 28 both carry the date 2026-03-08.
\<close>

theorem history_dates_repeat:
  "length (fst (generateHistoricalData new_york_spring_2026 1773099000000 low_draws 0)) = 30
   \<and> date (fst (generateHistoricalData new_york_spring_2026 1773099000000 low_draws 0) ! 27)
       = ''2026-03-08''
   \<and> date (fst (generateHistoricalData new_york_spring_2026 1773099000000 low_draws 0) ! 28)
       = ''2026-03-08''"
  by (simp add: history_length history_date new_york_set_back_1 new_york_set_back_2
      iso_2026_03_08 day_20520)

theorem history_dates_repeat_witness:
  "date (fst (generateHistoricalData new_york_spring_2026 1773099000000 low_draws 0) ! 27) =
   date (fst (generateHistoricalData new_york_spring_2026 1773099000000 low_draws 0) ! 28)"
  using history_dates_repeat by simp

section \<open>The market efficiency in binary64: rounding\<close>

lemma ulp_pos: "0 < ulp e"
  by (simp add: ulp_def)

lemma ulp_powr: "ulp e = 2 powr (of_int e - 52)"
proof (cases "52 \<le> e")
  case True
  then have "real (nat (e - 52)) = of_int e - 52" by simp
  then have "2 powr (of_int e - 52) = (2::real) ^ nat (e - 52)"
    using powr_realpow [of 2 "nat (e - 52)"] by simp
  then show ?thesis using True by (simp add: ulp_def)
next
  case False
  then have "real (nat (52 - e)) = 52 - of_int e" by simp
  then have "2 powr (52 - of_int e) = (2::real) ^ nat (52 - e)"
    using powr_realpow [of 2 "nat (52 - e)"] by simp
  moreover have "2 powr (of_int e - 52) = inverse (2 powr (52 - real_of_int e))"
    using powr_minus [of 2 "52 - real_of_int e"] by simp
  ultimately show ?thesis using False by (simp add: ulp_def inverse_eq_divide)
qed

lemma exponent_of:
  assumes "2 ^ 52 * ulp e \<le> \<bar>x\<bar>" "\<bar>x\<bar> < 2 ^ 53 * ulp e"
  shows "\<lfloor>log 2 \<bar>x\<bar>\<rfloor> = e"
proof -
  have p52: "(2::real) ^ 52 = 2 powr 52" and p53: "(2::real) ^ 53 = 2 powr 53"
    using powr_realpow [of 2 52] powr_realpow [of 2 53] by simp_all
  have "2 ^ 52 * ulp e = 2 powr 52 * 2 powr (of_int e - 52)"
    by (simp only: p52 ulp_powr)
  also have "\<dots> = 2 powr (52 + (of_int e - 52))"
    by (simp only: powr_add)
  finally have lo: "2 ^ 52 * ulp e = 2 powr (of_int e)"
    by simp
  have "2 ^ 53 * ulp e = 2 powr 53 * 2 powr (of_int e - 52)"
    by (simp only: p53 ulp_powr)
  also have "\<dots> = 2 powr (53 + (of_int e - 52))"
    by (simp only: powr_add)
  finally have hi: "2 ^ 53 * ulp e = 2 powr (of_int (e + 1))"
    by (simp add: add.commute)
  have "0 < 2 ^ 52 * ulp e"
    using ulp_pos [of e] by simp
  then have pos: "0 < \<bar>x\<bar>"
    using assms(1) by linarith
  show ?thesis
    using assms pos unfolding lo hi by (simp add: floor_log_eq_powr_iff)
qed

lemma round_half_even_near:
  assumes "\<bar>y - of_int n\<bar> < 1 / 2"
  shows "round_half_even y = n"
proof (cases "of_int n \<le> y")
  case True
  then have "\<lfloor>y\<rfloor> = n" using assms by (intro floor_unique) linarith+
  then show ?thesis using assms True by (simp add: round_half_even_def)
next
  case False
  have m: "real_of_int (n - 1) = of_int n - 1" by simp
  have f: "\<lfloor>y\<rfloor> = n - 1"
    using assms False unfolding m by (intro floor_unique; unfold m) linarith+
  have "1 / 2 < y - of_int (n - 1)" using assms False unfolding m by linarith
  then show ?thesis unfolding round_half_even_def f by (simp add: Let_def)
qed

lemma round_half_even_tie:
  assumes "y = of_int f + 1 / 2"
  shows "round_half_even y = (if even f then f else f + 1)"
proof -
  have "\<lfloor>y\<rfloor> = f" unfolding assms by (intro floor_unique) simp_all
  then show ?thesis by (simp add: round_half_even_def assms)
qed

lemma round_binary64_eqI:
  assumes "y = of_int n * ulp e"
    and "2 ^ 52 * ulp e \<le> \<bar>x\<bar>" "\<bar>x\<bar> < 2 ^ 53 * ulp e"
    and "\<bar>x / ulp e - of_int n\<bar> < 1 / 2"
  shows "round_binary64 x = y"
proof -
  have "0 < 2 ^ 52 * ulp e"
    using ulp_pos [of e] by simp
  then have "0 < \<bar>x\<bar>"
    using assms(2) by linarith
  then have "x \<noteq> 0" by simp
  then show ?thesis
    by (simp add: round_binary64_def exponent_of [OF assms(2,3)] round_half_even_near [OF assms(4)] assms(1))
qed

lemma round_binary64_tieI:
  assumes "y = of_int (if even f then f else f + 1) * ulp e"
    and "2 ^ 52 * ulp e \<le> \<bar>x\<bar>" "\<bar>x\<bar> < 2 ^ 53 * ulp e"
    and "x / ulp e = of_int f + 1 / 2"
  shows "round_binary64 x = y"
proof -
  have "0 < 2 ^ 52 * ulp e"
    using ulp_pos [of e] by simp
  then have "0 < \<bar>x\<bar>"
    using assms(2) by linarith
  then have "x \<noteq> 0" by simp
  then show ?thesis
    by (simp add: round_binary64_def exponent_of [OF assms(2,3)] round_half_even_tie [OF assms(4)] assms(1))
qed

lemma round_binary64_sqrtI:
  assumes "y = of_int n * ulp e" "2 ^ 52 \<le> n" "n < 2 ^ 53"
    and "(2 ^ 52 * ulp e)\<^sup>2 \<le> q"
    and "((of_int n - 1 / 2) * ulp e)\<^sup>2 < q" "q < ((of_int n + 1 / 2) * ulp e)\<^sup>2"
  shows "round_binary64 (sqrt q) = y"
proof -
  have u: "0 < ulp e" by (rule ulp_pos)
  have n: "(2::real) ^ 52 \<le> of_int n" "real_of_int n + 1 \<le> 2 ^ 53"
    using assms(2,3) by (simp_all add: of_int_le_iff [symmetric] del: of_int_le_iff)
  have lo: "(of_int n - 1 / 2) * ulp e < sqrt q"
    using assms(5) by (rule real_less_rsqrt)
  have "0 \<le> (of_int n + 1 / 2) * ulp e" using n u by simp
  then have hi: "sqrt q < (of_int n + 1 / 2) * ulp e"
    using assms(6) by (intro real_less_lsqrt)
  have b1: "2 ^ 52 * ulp e \<le> \<bar>sqrt q\<bar>"
    using assms(4) real_le_rsqrt [of "2 ^ 52 * ulp e" q] by linarith
  have "(of_int n + 1 / 2) * ulp e \<le> 2 ^ 53 * ulp e"
    using n u by (intro mult_right_mono) simp_all
  moreover have "0 \<le> q"
    using assms(4) by (meson order_trans zero_le_power2)
  then have "0 \<le> sqrt q" by simp
  ultimately have b2: "\<bar>sqrt q\<bar> < 2 ^ 53 * ulp e"
    using hi by linarith
  have "of_int n - 1 / 2 < sqrt q / ulp e" "sqrt q / ulp e < of_int n + 1 / 2"
    using lo hi u by (simp_all add: field_simps)
  then have near: "\<bar>sqrt q / ulp e - of_int n\<bar> < 1 / 2" by linarith
  show ?thesis
    by (rule round_binary64_eqI [OF assms(1) b1 b2 near])
qed

lemma add64_Fin: "round_binary64 (a + b) = y \<Longrightarrow> add64 (Fin a) (Fin b) = Fin y"
  by (simp add: add64_def)

lemma sub64_Fin: "round_binary64 (a - b) = y \<Longrightarrow> sub64 (Fin a) (Fin b) = Fin y"
  by (simp add: sub64_def jsub_def)

lemma mul64_Fin: "round_binary64 (a * b) = y \<Longrightarrow> mul64 (Fin a) (Fin b) = Fin y"
  by (simp add: mul64_def)

lemma div64_Fin: "b \<noteq> 0 \<Longrightarrow> round_binary64 (a / b) = y \<Longrightarrow> div64 (Fin a) (Fin b) = Fin y"
  by (simp add: div64_def)

lemma sqrt64_Fin: "0 \<le> a \<Longrightarrow> round_binary64 (sqrt a) = y \<Longrightarrow> sqrt64 (Fin a) = Fin y"
  by (simp add: sqrt64_def)

section \<open>The market efficiency in binary64: evaluations\<close>

lemma binary64_guard:
  "length prices1 \<noteq> length prices2 \<or> length prices1 < 2 \<Longrightarrow>
     calculateMarketEfficiency_binary64 prices1 prices2 = Fin 0"
  by (auto simp add: calculateMarketEfficiency_binary64_def)

text \<open>
  In the proofs below every step is one rounded operation of the function, in the order
  in which the function performs them, with the exact value of each binary64 result.

  The example of the specification is exact: no operation on 1, 2, 3 and 2, 4, 6 rounds.
\<close>

lemma binary64_example_linear:
  "calculateMarketEfficiency_binary64 [Fin 1, Fin 2, Fin 3] [Fin 2, Fin 4, Fin 6] =
     Fin 1"
proof -
  have s1: "add64 (Fin 0) (Fin 1) = Fin 1"
    by (rule add64_Fin, rule round_binary64_eqI [where n = "4503599627370496" and e = "0"])
       (simp_all add: ulp_def)
  have s2: "add64 (Fin 1) (Fin 2) = Fin 3"
    by (rule add64_Fin, rule round_binary64_eqI [where n = "6755399441055744" and e = "1"])
       (simp_all add: ulp_def)
  have s3: "add64 (Fin 3) (Fin 3) = Fin 6"
    by (rule add64_Fin, rule round_binary64_eqI [where n = "6755399441055744" and e = "2"])
       (simp_all add: ulp_def)
  have s4: "div64 (Fin 6) (Fin 3) = Fin 2"
    by (rule div64_Fin, simp, rule round_binary64_eqI [where n = "4503599627370496" and e = "1"])
       (simp_all add: ulp_def)
  have s5: "add64 (Fin 0) (Fin 2) = Fin 2"
    by (rule add64_Fin, rule round_binary64_eqI [where n = "4503599627370496" and e = "1"])
       (simp_all add: ulp_def)
  have s6: "add64 (Fin 2) (Fin 4) = Fin 6"
    by (rule add64_Fin, rule round_binary64_eqI [where n = "6755399441055744" and e = "2"])
       (simp_all add: ulp_def)
  have s7: "add64 (Fin 6) (Fin 6) = Fin 12"
    by (rule add64_Fin, rule round_binary64_eqI [where n = "6755399441055744" and e = "3"])
       (simp_all add: ulp_def)
  have s8: "div64 (Fin 12) (Fin 3) = Fin 4"
    by (rule div64_Fin, simp, rule round_binary64_eqI [where n = "4503599627370496" and e = "2"])
       (simp_all add: ulp_def)
  have s9: "sub64 (Fin 1) (Fin 2) = Fin (- 1)"
    by (rule sub64_Fin, rule round_binary64_eqI [where n = "- 4503599627370496" and e = "0"])
       (simp_all add: ulp_def)
  have s10: "sub64 (Fin 2) (Fin 4) = Fin (- 2)"
    by (rule sub64_Fin, rule round_binary64_eqI [where n = "- 4503599627370496" and e = "1"])
       (simp_all add: ulp_def)
  have s11: "mul64 (Fin (- 1)) (Fin (- 2)) = Fin 2"
    by (rule mul64_Fin, rule round_binary64_eqI [where n = "4503599627370496" and e = "1"])
       (simp_all add: ulp_def)
  have s12: "mul64 (Fin (- 1)) (Fin (- 1)) = Fin 1"
    by (rule mul64_Fin, rule round_binary64_eqI [where n = "4503599627370496" and e = "0"])
       (simp_all add: ulp_def)
  have s13: "mul64 (Fin (- 2)) (Fin (- 2)) = Fin 4"
    by (rule mul64_Fin, rule round_binary64_eqI [where n = "4503599627370496" and e = "2"])
       (simp_all add: ulp_def)
  have s14: "add64 (Fin 0) (Fin 4) = Fin 4"
    by (rule add64_Fin, rule round_binary64_eqI [where n = "4503599627370496" and e = "2"])
       (simp_all add: ulp_def)
  have s15: "sub64 (Fin 2) (Fin 2) = Fin 0"
    by (simp add: sub64_def jsub_def round_binary64_def)
  have s16: "sub64 (Fin 4) (Fin 4) = Fin 0"
    by (simp add: sub64_def jsub_def round_binary64_def)
  have s17: "mul64 (Fin 0) (Fin 0) = Fin 0"
    by (simp add: mul64_def jsub_def round_binary64_def)
  have s18: "add64 (Fin 2) (Fin 0) = Fin 2"
    by (rule add64_Fin, rule round_binary64_eqI [where n = "4503599627370496" and e = "1"])
       (simp_all add: ulp_def)
  have s19: "add64 (Fin 1) (Fin 0) = Fin 1"
    by (rule add64_Fin, rule round_binary64_eqI [where n = "4503599627370496" and e = "0"])
       (simp_all add: ulp_def)
  have s20: "add64 (Fin 4) (Fin 0) = Fin 4"
    by (rule add64_Fin, rule round_binary64_eqI [where n = "4503599627370496" and e = "2"])
       (simp_all add: ulp_def)
  have s21: "sub64 (Fin 3) (Fin 2) = Fin 1"
    by (rule sub64_Fin, rule round_binary64_eqI [where n = "4503599627370496" and e = "0"])
       (simp_all add: ulp_def)
  have s22: "sub64 (Fin 6) (Fin 4) = Fin 2"
    by (rule sub64_Fin, rule round_binary64_eqI [where n = "4503599627370496" and e = "1"])
       (simp_all add: ulp_def)
  have s23: "mul64 (Fin 1) (Fin 2) = Fin 2"
    by (rule mul64_Fin, rule round_binary64_eqI [where n = "4503599627370496" and e = "1"])
       (simp_all add: ulp_def)
  have s24: "add64 (Fin 2) (Fin 2) = Fin 4"
    by (rule add64_Fin, rule round_binary64_eqI [where n = "4503599627370496" and e = "2"])
       (simp_all add: ulp_def)
  have s25: "mul64 (Fin 1) (Fin 1) = Fin 1"
    by (rule mul64_Fin, rule round_binary64_eqI [where n = "4503599627370496" and e = "0"])
       (simp_all add: ulp_def)
  have s26: "add64 (Fin 1) (Fin 1) = Fin 2"
    by (rule add64_Fin, rule round_binary64_eqI [where n = "4503599627370496" and e = "1"])
       (simp_all add: ulp_def)
  have s27: "mul64 (Fin 2) (Fin 2) = Fin 4"
    by (rule mul64_Fin, rule round_binary64_eqI [where n = "4503599627370496" and e = "2"])
       (simp_all add: ulp_def)
  have s28: "add64 (Fin 4) (Fin 4) = Fin 8"
    by (rule add64_Fin, rule round_binary64_eqI [where n = "4503599627370496" and e = "3"])
       (simp_all add: ulp_def)
  have s29: "mul64 (Fin 2) (Fin 8) = Fin 16"
    by (rule mul64_Fin, rule round_binary64_eqI [where n = "4503599627370496" and e = "4"])
       (simp_all add: ulp_def)
  have s30: "sqrt64 (Fin 16) = Fin 4"
    by (rule sqrt64_Fin, simp, rule round_binary64_sqrtI [where n = 4503599627370496 and e = "2"])
       (simp_all add: ulp_def power2_eq_square)
  have s31: "div64 (Fin 4) (Fin 4) = Fin 1"
    by (rule div64_Fin, simp, rule round_binary64_eqI [where n = "4503599627370496" and e = "0"])
       (simp_all add: ulp_def)
  show ?thesis
    by (simp add: calculateMarketEfficiency_binary64_def reduce_sum_binary64_def
        efficiency_loop_binary64.simps index_num_def Let_def
        s1 s2 s3 s4 s5 s6 s7 s8 s9 s10 s11 s12
        s13 s14 s15 s16 s17 s18 s19 s20 s21 s22 s23 s24
        s25 s26 s27 s28 s29 s30 s31)
qed

text \<open>Two linearly related series: \<open>5 x\<close> against \<open>x\<close>, and prices 300 apart.\<close>

lemma binary64_linear_small:
  "calculateMarketEfficiency_binary64 [Fin 1, Fin 1, Fin 2] [Fin 5, Fin 5, Fin 10] =
     Fin (4503599627370497 / 4503599627370496)"
proof -
  have s1: "add64 (Fin 0) (Fin 1) = Fin 1"
    by (rule add64_Fin, rule round_binary64_eqI [where n = "4503599627370496" and e = "0"])
       (simp_all add: ulp_def)
  have s2: "add64 (Fin 1) (Fin 1) = Fin 2"
    by (rule add64_Fin, rule round_binary64_eqI [where n = "4503599627370496" and e = "1"])
       (simp_all add: ulp_def)
  have s3: "add64 (Fin 2) (Fin 2) = Fin 4"
    by (rule add64_Fin, rule round_binary64_eqI [where n = "4503599627370496" and e = "2"])
       (simp_all add: ulp_def)
  have s4: "div64 (Fin 4) (Fin 3) = Fin (6004799503160661 / 4503599627370496)"
    by (rule div64_Fin, simp, rule round_binary64_eqI [where n = "6004799503160661" and e = "0"])
       (simp_all add: ulp_def)
  have s5: "add64 (Fin 0) (Fin 5) = Fin 5"
    by (rule add64_Fin, rule round_binary64_eqI [where n = "5629499534213120" and e = "2"])
       (simp_all add: ulp_def)
  have s6: "add64 (Fin 5) (Fin 5) = Fin 10"
    by (rule add64_Fin, rule round_binary64_eqI [where n = "5629499534213120" and e = "3"])
       (simp_all add: ulp_def)
  have s7: "add64 (Fin 10) (Fin 10) = Fin 20"
    by (rule add64_Fin, rule round_binary64_eqI [where n = "5629499534213120" and e = "4"])
       (simp_all add: ulp_def)
  have s8: "div64 (Fin 20) (Fin 3) = Fin (7505999378950827 / 1125899906842624)"
    by (rule div64_Fin, simp, rule round_binary64_eqI [where n = "7505999378950827" and e = "2"])
       (simp_all add: ulp_def)
  have s9:
    "sub64 (Fin 1)
       (Fin (6004799503160661 / 4503599627370496)) =
       Fin (- (1501199875790165 / 4503599627370496))"
    by (rule sub64_Fin, rule round_binary64_eqI [where n = "- 6004799503160660" and e = "- 2"])
       (simp_all add: ulp_def)
  have s10:
    "sub64 (Fin 5)
       (Fin (7505999378950827 / 1125899906842624)) =
       Fin (- (1876499844737707 / 1125899906842624))"
    by (rule sub64_Fin, rule round_binary64_eqI [where n = "- 7505999378950828" and e = "0"])
       (simp_all add: ulp_def)
  have s11:
    "mul64 (Fin (- (1501199875790165 / 4503599627370496)))
       (Fin (- (1876499844737707 / 1125899906842624))) =
       Fin (2501999792983609 / 4503599627370496)"
    by (rule mul64_Fin, rule round_binary64_eqI [where n = "5003999585967218" and e = "- 1"])
       (simp_all add: ulp_def)
  have s12:
    "add64 (Fin 0)
       (Fin (2501999792983609 / 4503599627370496)) =
       Fin (2501999792983609 / 4503599627370496)"
    by (rule add64_Fin, rule round_binary64_eqI [where n = "5003999585967218" and e = "- 1"])
       (simp_all add: ulp_def)
  have s13:
    "mul64 (Fin (- (1501199875790165 / 4503599627370496)))
       (Fin (- (1501199875790165 / 4503599627370496))) =
       Fin (8006399337547545 / 72057594037927936)"
    by (rule mul64_Fin, rule round_binary64_eqI [where n = "8006399337547545" and e = "- 4"])
       (simp_all add: ulp_def)
  have s14:
    "add64 (Fin 0)
       (Fin (8006399337547545 / 72057594037927936)) =
       Fin (8006399337547545 / 72057594037927936)"
    by (rule add64_Fin, rule round_binary64_eqI [where n = "8006399337547545" and e = "- 4"])
       (simp_all add: ulp_def)
  have s15:
    "mul64 (Fin (- (1876499844737707 / 1125899906842624)))
       (Fin (- (1876499844737707 / 1125899906842624))) =
       Fin (390937467653689 / 140737488355328)"
    by (rule mul64_Fin, rule round_binary64_eqI [where n = "6254999482459024" and e = "1"])
       (simp_all add: ulp_def)
  have s16:
    "add64 (Fin 0)
       (Fin (390937467653689 / 140737488355328)) =
       Fin (390937467653689 / 140737488355328)"
    by (rule add64_Fin, rule round_binary64_eqI [where n = "6254999482459024" and e = "1"])
       (simp_all add: ulp_def)
  have s17:
    "add64 (Fin (2501999792983609 / 4503599627370496))
       (Fin (2501999792983609 / 4503599627370496)) =
       Fin (2501999792983609 / 2251799813685248)"
    by (rule add64_Fin, rule round_binary64_eqI [where n = "5003999585967218" and e = "0"])
       (simp_all add: ulp_def)
  have s18:
    "add64 (Fin (8006399337547545 / 72057594037927936))
       (Fin (8006399337547545 / 72057594037927936)) =
       Fin (8006399337547545 / 36028797018963968)"
    by (rule add64_Fin, rule round_binary64_eqI [where n = "8006399337547545" and e = "- 3"])
       (simp_all add: ulp_def)
  have s19:
    "add64 (Fin (390937467653689 / 140737488355328))
       (Fin (390937467653689 / 140737488355328)) =
       Fin (390937467653689 / 70368744177664)"
    by (rule add64_Fin, rule round_binary64_eqI [where n = "6254999482459024" and e = "2"])
       (simp_all add: ulp_def)
  have s20:
    "sub64 (Fin 2)
       (Fin (6004799503160661 / 4503599627370496)) =
       Fin (3002399751580331 / 4503599627370496)"
    by (rule sub64_Fin, rule round_binary64_eqI [where n = "6004799503160662" and e = "- 1"])
       (simp_all add: ulp_def)
  have s21:
    "sub64 (Fin 10)
       (Fin (7505999378950827 / 1125899906842624)) =
       Fin (3752999689475413 / 1125899906842624)"
    by (rule sub64_Fin, rule round_binary64_eqI [where n = "7505999378950826" and e = "1"])
       (simp_all add: ulp_def)
  have s22:
    "mul64 (Fin (3002399751580331 / 4503599627370496))
       (Fin (3752999689475413 / 1125899906842624)) =
       Fin (2501999792983609 / 1125899906842624)"
    by (rule mul64_Fin, rule round_binary64_eqI [where n = "5003999585967218" and e = "1"])
       (simp_all add: ulp_def)
  have s23:
    "add64 (Fin (2501999792983609 / 2251799813685248))
       (Fin (2501999792983609 / 1125899906842624)) =
       Fin (7505999378950827 / 2251799813685248)"
    by (rule add64_Fin, rule round_binary64_eqI [where n = "7505999378950827" and e = "1"])
       (simp_all add: ulp_def)
  have s24:
    "mul64 (Fin (3002399751580331 / 4503599627370496))
       (Fin (3002399751580331 / 4503599627370496)) =
       Fin (4003199668773775 / 9007199254740992)"
    by (rule mul64_Fin, rule round_binary64_eqI [where n = "8006399337547550" and e = "- 2"])
       (simp_all add: ulp_def)
  have s25:
    "add64 (Fin (8006399337547545 / 36028797018963968))
       (Fin (4003199668773775 / 9007199254740992)) =
       Fin (6004799503160661 / 9007199254740992)"
    by (rule add64_Fin, rule round_binary64_eqI [where n = "6004799503160661" and e = "- 1"])
       (simp_all add: ulp_def)
  have s26:
    "mul64 (Fin (3752999689475413 / 1125899906842624))
       (Fin (3752999689475413 / 1125899906842624)) =
       Fin (6254999482459021 / 562949953421312)"
    by (rule mul64_Fin, rule round_binary64_eqI [where n = "6254999482459021" and e = "3"])
       (simp_all add: ulp_def)
  have s27:
    "add64 (Fin (390937467653689 / 70368744177664))
       (Fin (6254999482459021 / 562949953421312)) =
       Fin (2345624805922133 / 140737488355328)"
    by (rule add64_Fin, rule round_binary64_tieI [where f = "4691249611844266" and e = "4"])
       (simp_all add: ulp_def)
  have s28:
    "mul64 (Fin (6004799503160661 / 9007199254740992))
       (Fin (2345624805922133 / 140737488355328)) =
       Fin (6254999482459021 / 562949953421312)"
    by (rule mul64_Fin, rule round_binary64_eqI [where n = "6254999482459021" and e = "3"])
       (simp_all add: ulp_def)
  have s29:
    "sqrt64 (Fin (6254999482459021 / 562949953421312)) =
       Fin (3752999689475413 / 1125899906842624)"
    by (rule sqrt64_Fin, simp, rule round_binary64_sqrtI [where n = 7505999378950826 and e = "1"])
       (simp_all add: ulp_def power2_eq_square)
  have s30:
    "div64 (Fin (7505999378950827 / 2251799813685248))
       (Fin (3752999689475413 / 1125899906842624)) =
       Fin (4503599627370497 / 4503599627370496)"
    by (rule div64_Fin, simp, rule round_binary64_eqI [where n = "4503599627370497" and e = "0"])
       (simp_all add: ulp_def)
  show ?thesis
    by (simp add: calculateMarketEfficiency_binary64_def reduce_sum_binary64_def
        efficiency_loop_binary64.simps index_num_def Let_def
        s1 s2 s3 s4 s5 s6 s7 s8 s9 s10 s11 s12
        s13 s14 s15 s16 s17 s18 s19 s20 s21 s22 s23 s24
        s25 s26 s27 s28 s29 s30)
qed

lemma binary64_linear_prices:
  "calculateMarketEfficiency_binary64 [Fin 4200, Fin 4300, Fin 4450] [Fin 3900, Fin 4000, Fin 4150] =
     Fin (4503599627370497 / 4503599627370496)"
proof -
  have s1: "add64 (Fin 0) (Fin 4200) = Fin 4200"
    by (rule add64_Fin, rule round_binary64_eqI [where n = "4617948836659200" and e = "12"])
       (simp_all add: ulp_def)
  have s2: "add64 (Fin 4200) (Fin 4300) = Fin 8500"
    by (rule add64_Fin, rule round_binary64_eqI [where n = "4672924418048000" and e = "13"])
       (simp_all add: ulp_def)
  have s3: "add64 (Fin 8500) (Fin 4450) = Fin 12950"
    by (rule add64_Fin, rule round_binary64_eqI [where n = "7119337789849600" and e = "13"])
       (simp_all add: ulp_def)
  have s4: "div64 (Fin 12950) (Fin 3) = Fin (4746225193233067 / 1099511627776)"
    by (rule div64_Fin, simp, rule round_binary64_eqI [where n = "4746225193233067" and e = "12"])
       (simp_all add: ulp_def)
  have s5: "add64 (Fin 0) (Fin 3900) = Fin 3900"
    by (rule add64_Fin, rule round_binary64_eqI [where n = "8576190696652800" and e = "11"])
       (simp_all add: ulp_def)
  have s6: "add64 (Fin 3900) (Fin 4000) = Fin 7900"
    by (rule add64_Fin, rule round_binary64_eqI [where n = "8686141859430400" and e = "12"])
       (simp_all add: ulp_def)
  have s7: "add64 (Fin 7900) (Fin 4150) = Fin 12050"
    by (rule add64_Fin, rule round_binary64_eqI [where n = "6624557557350400" and e = "13"])
       (simp_all add: ulp_def)
  have s8: "div64 (Fin 12050) (Fin 3) = Fin (8832743409800533 / 2199023255552)"
    by (rule div64_Fin, simp, rule round_binary64_eqI [where n = "8832743409800533" and e = "11"])
       (simp_all add: ulp_def)
  have s9:
    "sub64 (Fin 4200)
       (Fin (4746225193233067 / 1099511627776)) =
       Fin (- (128276356573867 / 1099511627776))"
    by (rule sub64_Fin, rule round_binary64_eqI [where n = "- 8209686820727488" and e = "6"])
       (simp_all add: ulp_def)
  have s10:
    "sub64 (Fin 3900)
       (Fin (8832743409800533 / 2199023255552)) =
       Fin (- (256552713147733 / 2199023255552))"
    by (rule sub64_Fin, rule round_binary64_eqI [where n = "- 8209686820727456" and e = "6"])
       (simp_all add: ulp_def)
  have s11:
    "mul64 (Fin (- (128276356573867 / 1099511627776)))
       (Fin (- (256552713147733 / 2199023255552))) =
       Fin (7482787466808899 / 549755813888)"
    by (rule mul64_Fin, rule round_binary64_eqI [where n = "7482787466808899" and e = "13"])
       (simp_all add: ulp_def)
  have s12:
    "add64 (Fin 0)
       (Fin (7482787466808899 / 549755813888)) =
       Fin (7482787466808899 / 549755813888)"
    by (rule add64_Fin, rule round_binary64_eqI [where n = "7482787466808899" and e = "13"])
       (simp_all add: ulp_def)
  have s13:
    "mul64 (Fin (- (128276356573867 / 1099511627776)))
       (Fin (- (128276356573867 / 1099511627776))) =
       Fin (233837108337779 / 17179869184)"
    by (rule mul64_Fin, rule round_binary64_eqI [where n = "7482787466808928" and e = "13"])
       (simp_all add: ulp_def)
  have s14:
    "add64 (Fin 0)
       (Fin (233837108337779 / 17179869184)) =
       Fin (233837108337779 / 17179869184)"
    by (rule add64_Fin, rule round_binary64_eqI [where n = "7482787466808928" and e = "13"])
       (simp_all add: ulp_def)
  have s15:
    "mul64 (Fin (- (256552713147733 / 2199023255552)))
       (Fin (- (256552713147733 / 2199023255552))) =
       Fin (7482787466808869 / 549755813888)"
    by (rule mul64_Fin, rule round_binary64_eqI [where n = "7482787466808869" and e = "13"])
       (simp_all add: ulp_def)
  have s16:
    "add64 (Fin 0)
       (Fin (7482787466808869 / 549755813888)) =
       Fin (7482787466808869 / 549755813888)"
    by (rule add64_Fin, rule round_binary64_eqI [where n = "7482787466808869" and e = "13"])
       (simp_all add: ulp_def)
  have s17:
    "sub64 (Fin 4300)
       (Fin (4746225193233067 / 1099511627776)) =
       Fin (- (18325193796267 / 1099511627776))"
    by (rule sub64_Fin, rule round_binary64_eqI [where n = "- 4691249611844352" and e = "4"])
       (simp_all add: ulp_def)
  have s18:
    "sub64 (Fin 4000)
       (Fin (8832743409800533 / 2199023255552)) =
       Fin (- (36650387592533 / 2199023255552))"
    by (rule sub64_Fin, rule round_binary64_eqI [where n = "- 4691249611844224" and e = "4"])
       (simp_all add: ulp_def)
  have s19:
    "mul64 (Fin (- (18325193796267 / 1099511627776)))
       (Fin (- (36650387592533 / 2199023255552))) =
       Fin (1221679586417789 / 4398046511104)"
    by (rule mul64_Fin, rule round_binary64_eqI [where n = "4886718345671156" and e = "8"])
       (simp_all add: ulp_def)
  have s20:
    "add64 (Fin (7482787466808899 / 549755813888))
       (Fin (1221679586417789 / 4398046511104)) =
       Fin (7635497415111123 / 549755813888)"
    by (rule add64_Fin, rule round_binary64_eqI [where n = "7635497415111123" and e = "13"])
       (simp_all add: ulp_def)
  have s21:
    "mul64 (Fin (- (18325193796267 / 1099511627776)))
       (Fin (- (18325193796267 / 1099511627776))) =
       Fin (4886718345671289 / 17592186044416)"
    by (rule mul64_Fin, rule round_binary64_eqI [where n = "4886718345671289" and e = "8"])
       (simp_all add: ulp_def)
  have s22:
    "add64 (Fin (233837108337779 / 17179869184))
       (Fin (4886718345671289 / 17592186044416)) =
       Fin (1908874353777789 / 137438953472)"
    by (rule add64_Fin, rule round_binary64_eqI [where n = "7635497415111156" and e = "13"])
       (simp_all add: ulp_def)
  have s23:
    "mul64 (Fin (- (36650387592533 / 2199023255552)))
       (Fin (- (36650387592533 / 2199023255552))) =
       Fin (2443359172835511 / 8796093022208)"
    by (rule mul64_Fin, rule round_binary64_eqI [where n = "4886718345671022" and e = "8"])
       (simp_all add: ulp_def)
  have s24:
    "add64 (Fin (7482787466808869 / 549755813888))
       (Fin (2443359172835511 / 8796093022208)) =
       Fin (477218588444443 / 34359738368)"
    by (rule add64_Fin, rule round_binary64_eqI [where n = "7635497415111088" and e = "13"])
       (simp_all add: ulp_def)
  have s25:
    "sub64 (Fin 4450)
       (Fin (4746225193233067 / 1099511627776)) =
       Fin (146601550370133 / 1099511627776)"
    by (rule sub64_Fin, rule round_binary64_eqI [where n = "4691249611844256" and e = "7"])
       (simp_all add: ulp_def)
  have s26:
    "sub64 (Fin 4150)
       (Fin (8832743409800533 / 2199023255552)) =
       Fin (293203100740267 / 2199023255552)"
    by (rule sub64_Fin, rule round_binary64_eqI [where n = "4691249611844272" and e = "7"])
       (simp_all add: ulp_def)
  have s27:
    "mul64 (Fin (146601550370133 / 1099511627776))
       (Fin (293203100740267 / 2199023255552)) =
       Fin (2443359172835553 / 137438953472)"
    by (rule mul64_Fin, rule round_binary64_eqI [where n = "4886718345671106" and e = "14"])
       (simp_all add: ulp_def)
  have s28:
    "add64 (Fin (7635497415111123 / 549755813888))
       (Fin (2443359172835553 / 137438953472)) =
       Fin (2176116763306667 / 68719476736)"
    by (rule add64_Fin, rule round_binary64_tieI [where f = "8704467053226667" and e = "14"])
       (simp_all add: ulp_def)
  have s29:
    "mul64 (Fin (146601550370133 / 1099511627776))
       (Fin (146601550370133 / 1099511627776)) =
       Fin (4886718345671089 / 274877906944)"
    by (rule mul64_Fin, rule round_binary64_eqI [where n = "4886718345671089" and e = "14"])
       (simp_all add: ulp_def)
  have s30:
    "add64 (Fin (1908874353777789 / 137438953472))
       (Fin (4886718345671089 / 274877906944)) =
       Fin (8704467053226667 / 274877906944)"
    by (rule add64_Fin, rule round_binary64_eqI [where n = "8704467053226667" and e = "14"])
       (simp_all add: ulp_def)
  have s31:
    "mul64 (Fin (293203100740267 / 2199023255552))
       (Fin (293203100740267 / 2199023255552)) =
       Fin (2443359172835561 / 137438953472)"
    by (rule mul64_Fin, rule round_binary64_eqI [where n = "4886718345671122" and e = "14"])
       (simp_all add: ulp_def)
  have s32:
    "add64 (Fin (477218588444443 / 34359738368))
       (Fin (2443359172835561 / 137438953472)) =
       Fin (4352233526613333 / 137438953472)"
    by (rule add64_Fin, rule round_binary64_eqI [where n = "8704467053226666" and e = "14"])
       (simp_all add: ulp_def)
  have s33:
    "mul64 (Fin (8704467053226667 / 274877906944))
       (Fin (4352233526613333 / 137438953472)) =
       Fin (8411909688888889 / 8388608)"
    by (rule mul64_Fin, rule round_binary64_eqI [where n = "8411909688888889" and e = "29"])
       (simp_all add: ulp_def)
  have s34: "sqrt64 (Fin (8411909688888889 / 8388608)) = Fin (8704467053226667 / 274877906944)"
    by (rule sqrt64_Fin, simp, rule round_binary64_sqrtI [where n = 8704467053226667 and e = "14"])
       (simp_all add: ulp_def power2_eq_square)
  have s35:
    "div64 (Fin (2176116763306667 / 68719476736))
       (Fin (8704467053226667 / 274877906944)) =
       Fin (4503599627370497 / 4503599627370496)"
    by (rule div64_Fin, simp, rule round_binary64_eqI [where n = "4503599627370497" and e = "0"])
       (simp_all add: ulp_def)
  show ?thesis
    by (simp add: calculateMarketEfficiency_binary64_def reduce_sum_binary64_def
        efficiency_loop_binary64.simps index_num_def Let_def
        s1 s2 s3 s4 s5 s6 s7 s8 s9 s10 s11 s12
        s13 s14 s15 s16 s17 s18 s19 s20 s21 s22 s23 s24
        s25 s26 s27 s28 s29 s30 s31 s32 s33 s34 s35)
qed

text \<open>
  C8. The specification asks for a returned value between 0 and 1, and for 1 on linearly
  related series. With every operation rounded to binary64 as the language does, the
  function returns \<open>1 + 2\<^sup>-\<^sup>5\<^sup>2\<close> (printed 1.0000000000000002) on 1, 1, 2 against
  5, 5, 10 and on the prices 4200, 4300, 4450 against 3900, 4000, 4150. Each pair is
  linearly related, and the result is above 1, which the documentation of the function
  excludes.
\<close>

theorem efficiency_above_one:
  "calculateMarketEfficiency_binary64 [Fin 1, Fin 1, Fin 2] [Fin 5, Fin 5, Fin 10] =
     Fin (1 + 1 / 2 ^ 52)
   \<and> calculateMarketEfficiency_binary64 [Fin 4200, Fin 4300, Fin 4450]
       [Fin 3900, Fin 4000, Fin 4150] = Fin (1 + 1 / 2 ^ 52)
   \<and> jgreater (Fin (1 + 1 / 2 ^ 52)) (Fin 1)"
  by (simp add: binary64_linear_small binary64_linear_prices jgreater_def)

theorem efficiency_above_one_witness:
  "\<not> jge (Fin 1)
       (calculateMarketEfficiency_binary64 [Fin 1, Fin 1, Fin 2] [Fin 5, Fin 5, Fin 10])"
  using efficiency_above_one by simp

end
